theory Spec2Isabelle
  imports Main "HOL-Library.Sublist"
begin

section \<open>Python values\<close>

text \<open>
  The pipeline passes licenses around as Python dictionaries with string keys
  (\<^verbatim>\<open>Dict[str, Any]\<close>), either written as literals by the code or parsed from the
  reply of the language model by \<^verbatim>\<open>json.loads\<close>. A value is therefore a JSON value. A
  dictionary is an association list in insertion order, as a Python \<^verbatim>\<open>dict\<close> is. Numbers
  are Python's unbounded integers; floating-point numbers are outside the model. A
  string is a list of characters.
\<close>

datatype json =
    JNull
  | JBool bool
  | JInt int
  | JStr string
  | JList "json list"
  | JObj "(string \<times> json) list"

type_synonym dict = "(string \<times> json) list"

text \<open>
  The exceptions of the model. The first five stand for classes below \<^verbatim>\<open>Exception\<close>,
  \<^verbatim>\<open>OtherException\<close> for any such class that is not named. The last three are classes
  of \<^verbatim>\<open>BaseException\<close> that are not below \<^verbatim>\<open>Exception\<close>, so a handler
  \<^verbatim>\<open>except Exception\<close> does not catch them.
\<close>

datatype py_error =
    KeyError
  | TypeError
  | AttributeError
  | JSONDecodeError
  | OtherException
  | CancelledError
  | KeyboardInterrupt
  | SystemExit

text \<open>\<^verbatim>\<open>isinstance(e, Exception)\<close>.\<close>

fun is_exception :: "py_error \<Rightarrow> bool" where
  "is_exception CancelledError = False"
| "is_exception KeyboardInterrupt = False"
| "is_exception SystemExit = False"
| "is_exception e = True"

text \<open>Truth value of a Python object, as \<^verbatim>\<open>not x\<close> and \<^verbatim>\<open>if x\<close> read it.\<close>

fun truthy :: "json \<Rightarrow> bool" where
  "truthy JNull = False"
| "truthy (JBool b) = b"
| "truthy (JInt n) = (n \<noteq> 0)"
| "truthy (JStr s) = (s \<noteq> [])"
| "truthy (JList xs) = (xs \<noteq> [])"
| "truthy (JObj kvs) = (kvs \<noteq> [])"

text \<open>\<^verbatim>\<open>d.get(k, default)\<close> and \<^verbatim>\<open>d.get(k)\<close>, whose default is \<^verbatim>\<open>None\<close>.\<close>

definition get_or :: "dict \<Rightarrow> string \<Rightarrow> json \<Rightarrow> json" where
  "get_or d k dflt = (case map_of d k of None \<Rightarrow> dflt | Some v \<Rightarrow> v)"

definition get :: "dict \<Rightarrow> string \<Rightarrow> json" where
  "get d k = get_or d k JNull"

text \<open>
  \<^verbatim>\<open>d[k] = v\<close>: an existing key keeps its place (and its key object), a new key goes
  to the end.
\<close>

fun setitem :: "('k \<times> 'v) list \<Rightarrow> 'k \<Rightarrow> 'v \<Rightarrow> ('k \<times> 'v) list" where
  "setitem [] k v = [(k, v)]"
| "setitem ((k', v') # d) k v =
     (if k' = k then (k', v) # d else (k', v') # setitem d k v)"

text \<open>
  \<^verbatim>\<open>d[k1][k2] = v\<close>: \<^verbatim>\<open>d[k1]\<close> raises KeyError when the key is missing, and the
  item assignment raises TypeError when \<^verbatim>\<open>d[k1]\<close> is not a dictionary. The inner
  dictionary is mutated in place, so \<^verbatim>\<open>d\<close> keeps its keys in their places.
\<close>

definition setitem2 :: "dict \<Rightarrow> string \<Rightarrow> string \<Rightarrow> json \<Rightarrow> py_error + dict" where
  "setitem2 d k1 k2 v =
     (case map_of d k1 of
        None \<Rightarrow> Inl KeyError
      | Some (JObj inner) \<Rightarrow> Inr (setitem d k1 (JObj (setitem inner k2 v)))
      | Some _ \<Rightarrow> Inl TypeError)"

text \<open>
  The branches of the fallback analysis are sequences of the two assignment forms
  above; a sequence stops at the first assignment that raises.
\<close>

datatype assignment =
    Set string json
  | Set2 string string json

fun assign :: "assignment \<Rightarrow> dict \<Rightarrow> py_error + dict" where
  "assign (Set k v) d = Inr (setitem d k v)"
| "assign (Set2 k1 k2 v) d = setitem2 d k1 k2 v"

fun assign_all :: "assignment list \<Rightarrow> dict \<Rightarrow> py_error + dict" where
  "assign_all [] d = Inr d"
| "assign_all (a # as) d =
     (case assign a d of Inl e \<Rightarrow> Inl e | Inr d' \<Rightarrow> assign_all as d')"

text \<open>\<^verbatim>\<open>sub in s\<close> on strings: \<^verbatim>\<open>sub\<close> occurs in \<^verbatim>\<open>s\<close> as a contiguous substring.\<close>

fun str_contains :: "string \<Rightarrow> string \<Rightarrow> bool" where
  "str_contains sub [] = (sub = [])"
| "str_contains sub (c # cs) = (prefix sub (c # cs) \<or> str_contains sub cs)"

text \<open>
  \<^verbatim>\<open>s.find(sub)\<close> is the least index at which \<^verbatim>\<open>sub\<close> occurs in \<^verbatim>\<open>s\<close> and \<^verbatim>\<open>-1\<close>
  when there is none; \<^verbatim>\<open>s.rfind(sub)\<close> is the greatest such index. \<^verbatim>\<open>s[a:b]\<close> with
  \<^verbatim>\<open>0 <= a\<close> and \<^verbatim>\<open>0 <= b\<close> is the slice from \<^verbatim>\<open>a\<close> up to \<^verbatim>\<open>b\<close>, cut at the end of
  the string.
\<close>

fun str_find :: "string \<Rightarrow> string \<Rightarrow> int" where
  "str_find [] sub = (if sub = [] then 0 else -1)"
| "str_find (c # cs) sub =
     (if prefix sub (c # cs) then 0
      else (let r = str_find cs sub in if r < 0 then -1 else r + 1))"

fun str_rfind :: "string \<Rightarrow> string \<Rightarrow> int" where
  "str_rfind [] sub = (if sub = [] then 0 else -1)"
| "str_rfind (c # cs) sub =
     (let r = str_rfind cs sub in
      if r \<ge> 0 then r + 1
      else if prefix sub (c # cs) then 0 else -1)"

definition slice :: "string \<Rightarrow> int \<Rightarrow> int \<Rightarrow> string" where
  "slice s a b = drop (nat a) (take (nat b) s)"

section \<open>The license analyzer (\<^verbatim>\<open>ospac/pipeline/llm_analyzer.py\<close>)\<close>

subsection \<open>\<^verbatim>\<open>LicenseAnalyzer._get_fallback_analysis\<close>\<close>

definition default_analysis :: "string \<Rightarrow> dict" where
  "default_analysis license_id =
     [(''license_id'', JStr license_id),
      (''category'', JStr ''permissive''),
      (''permissions'', JObj
         [(''commercial_use'', JBool True),
          (''distribution'', JBool True),
          (''modification'', JBool True),
          (''patent_grant'', JBool False),
          (''private_use'', JBool True)]),
      (''conditions'', JObj
         [(''disclose_source'', JBool False),
          (''include_license'', JBool True),
          (''include_copyright'', JBool True),
          (''include_notice'', JBool False),
          (''state_changes'', JBool False),
          (''same_license'', JBool False),
          (''network_use_disclosure'', JBool False)]),
      (''limitations'', JObj
         [(''liability'', JBool True),
          (''warranty'', JBool True),
          (''trademark_use'', JBool False)]),
      (''compatibility'', JObj
         [(''can_combine_with_permissive'', JBool True),
          (''can_combine_with_weak_copyleft'', JBool True),
          (''can_combine_with_strong_copyleft'', JBool False),
          (''static_linking_restrictions'', JStr ''none''),
          (''dynamic_linking_restrictions'', JStr ''none'')]),
      (''obligations'', JList [JStr ''Include license text'', JStr ''Include copyright notice'']),
      (''key_requirements'', JList [JStr ''Attribution required''])]"

definition get_fallback_analysis :: "string \<Rightarrow> py_error + dict" where
  "get_fallback_analysis license_id =
     (let analysis = default_analysis license_id in
      if str_contains ''GPL'' license_id then
        assign_all
          [Set ''category'' (JStr ''copyleft_strong''),
           Set2 ''conditions'' ''disclose_source'' (JBool True),
           Set2 ''conditions'' ''same_license'' (JBool True),
           Set2 ''compatibility'' ''can_combine_with_strong_copyleft'' (JBool True),
           Set2 ''compatibility'' ''can_combine_with_permissive'' (JBool False),
           Set2 ''compatibility'' ''static_linking_restrictions'' (JStr ''strong''),
           Set ''obligations'' (JList
             [JStr ''Disclose source code'',
              JStr ''Include license text'',
              JStr ''State changes'',
              JStr ''Use same license for derivatives''])]
          analysis
      else if str_contains ''LGPL'' license_id then
        assign_all
          [Set ''category'' (JStr ''copyleft_weak''),
           Set2 ''conditions'' ''disclose_source'' (JBool True),
           Set2 ''compatibility'' ''static_linking_restrictions'' (JStr ''weak''),
           Set ''obligations'' (JList
             [JStr ''Disclose source of LGPL components'',
              JStr ''Allow relinking'',
              JStr ''Include license text''])]
          analysis
      else if str_contains ''AGPL'' license_id then
        assign_all
          [Set ''category'' (JStr ''copyleft_strong''),
           Set2 ''conditions'' ''disclose_source'' (JBool True),
           Set2 ''conditions'' ''same_license'' (JBool True),
           Set2 ''conditions'' ''network_use_disclosure'' (JBool True),
           Set2 ''compatibility'' ''static_linking_restrictions'' (JStr ''strong'')]
          analysis
      else if str_contains ''Apache'' license_id then
        assign_all
          [Set ''category'' (JStr ''permissive''),
           Set2 ''permissions'' ''patent_grant'' (JBool True),
           Set2 ''conditions'' ''include_notice'' (JBool True),
           Set2 ''conditions'' ''state_changes'' (JBool True)]
          analysis
      else if str_contains ''MIT'' license_id \<or> str_contains ''BSD'' license_id
              \<or> str_contains ''ISC'' license_id then
        assign_all [Set ''category'' (JStr ''permissive'')] analysis
      else if str_contains ''CC0'' license_id \<or> str_contains ''Unlicense'' license_id then
        assign_all
          [Set ''category'' (JStr ''public_domain''),
           Set2 ''conditions'' ''include_license'' (JBool False),
           Set2 ''conditions'' ''include_copyright'' (JBool False),
           Set ''obligations'' (JList [])]
          analysis
      else Inr analysis)"

subsection \<open>\<^verbatim>\<open>LicenseAnalyzer.analyze_license\<close>\<close>

text \<open>
  The agent is the optional backend: \<^verbatim>\<open>self.agent\<close> is \<^verbatim>\<open>None\<close> or an object whose
  \<^verbatim>\<open>query\<close> takes the prompt and returns the reply text or raises; what it raises may
  be any exception, \<^verbatim>\<open>asyncio.CancelledError\<close> of the awaited call included.
  \<^verbatim>\<open>json.loads\<close> belongs to Python's library, so it is a parameter: it returns the
  parsed value or raises, \<^verbatim>\<open>JSONDecodeError\<close> for text that is not JSON. It is only
  applied to a slice that starts with an opening brace, where the value it returns is a
  dictionary.
\<close>

type_synonym agent = "string \<Rightarrow> py_error + string"

type_synonym loads = "string \<Rightarrow> py_error + dict"

definition analysis_prompt :: "string \<Rightarrow> string \<Rightarrow> string" where
  \<open>analysis_prompt license_id license_text =
      ''Analyze the following license and provide detailed information in JSON format.\<newline>'' @
      ''\<newline>'' @
      ''License ID: '' @
      license_id @
      ''\<newline>'' @
      ''License Text (first 3000 chars):\<newline>'' @
      take 3000 license_text @
      ''\<newline>'' @
      ''\<newline>'' @
      ''Provide a JSON response with the following structure:\<newline>'' @
      ''{\<newline>'' @
      ''    "license_id": "'' @
      license_id @
      ''",\<newline>'' @
      ''    "category": "permissive|copyleft_weak|copyleft_strong|proprietary|public_domain",\<newline>'' @
      ''    "permissions": {\<newline>'' @
      ''        "commercial_use": true/false,\<newline>'' @
      ''        "distribution": true/false,\<newline>'' @
      ''        "modification": true/false,\<newline>'' @
      ''        "patent_grant": true/false,\<newline>'' @
      ''        "private_use": true/false\<newline>'' @
      ''    },\<newline>'' @
      ''    "conditions": {\<newline>'' @
      ''        "disclose_source": true/false,\<newline>'' @
      ''        "include_license": true/false,\<newline>'' @
      ''        "include_copyright": true/false,\<newline>'' @
      ''        "include_notice": true/false,\<newline>'' @
      ''        "state_changes": true/false,\<newline>'' @
      ''        "same_license": true/false,\<newline>'' @
      ''        "network_use_disclosure": true/false\<newline>'' @
      ''    },\<newline>'' @
      ''    "limitations": {\<newline>'' @
      ''        "liability": true/false,\<newline>'' @
      ''        "warranty": true/false,\<newline>'' @
      ''        "trademark_use": true/false\<newline>'' @
      ''    },\<newline>'' @
      ''    "compatibility": {\<newline>'' @
      ''        "can_combine_with_permissive": true/false,\<newline>'' @
      ''        "can_combine_with_weak_copyleft": true/false,\<newline>'' @
      ''        "can_combine_with_strong_copyleft": true/false,\<newline>'' @
      ''        "static_linking_restrictions": "none|weak|strong",\<newline>'' @
      ''        "dynamic_linking_restrictions": "none|weak|strong"\<newline>'' @
      ''    },\<newline>'' @
      ''    "obligations": [\<newline>'' @
      ''        "List of specific obligations when using this license"\<newline>'' @
      ''    ],\<newline>'' @
      ''    "key_requirements": [\<newline>'' @
      ''        "List of key requirements for compliance"\<newline>'' @
      ''    ]\<newline>'' @
      ''}''\<close>

text \<open>
  The inner \<^verbatim>\<open>try\<close>: the reply is cut from its first opening brace to its last closing
  brace and parsed; a reply without such a slice gets the fallback analysis.
\<close>

definition parse_response :: "loads \<Rightarrow> string \<Rightarrow> string \<Rightarrow> py_error + dict" where
  "parse_response json_loads license_id response =
     (let json_start = str_find response ''{'';
          json_end = str_rfind response ''}'' + 1
      in if json_start \<ge> 0 \<and> json_end > json_start
         then json_loads (slice response json_start json_end)
         else get_fallback_analysis license_id)"

text \<open>
  The body of the outer \<^verbatim>\<open>try\<close>: the query, then the inner \<^verbatim>\<open>try\<close> with its handler
  for \<^verbatim>\<open>json.JSONDecodeError\<close>. Every other exception leaves the body.
\<close>

definition analyze_body :: "agent \<Rightarrow> loads \<Rightarrow> string \<Rightarrow> string \<Rightarrow> py_error + dict" where
  "analyze_body query json_loads license_id license_text =
     (case query (analysis_prompt license_id license_text) of
        Inl e \<Rightarrow> Inl e
      | Inr response \<Rightarrow>
          (case parse_response json_loads license_id response of
             Inl JSONDecodeError \<Rightarrow> get_fallback_analysis license_id
           | Inl e \<Rightarrow> Inl e
           | Inr analysis \<Rightarrow> Inr analysis))"

text \<open>
  The outer handler is \<^verbatim>\<open>except Exception\<close>: it turns an exception below \<^verbatim>\<open>Exception\<close>
  into the fallback analysis, and every other exception goes on to the caller.
\<close>

definition analyze_license ::
    "agent option \<Rightarrow> loads \<Rightarrow> string \<Rightarrow> string \<Rightarrow> py_error + dict" where
  "analyze_license agent json_loads license_id license_text =
     (case agent of
        None \<Rightarrow> get_fallback_analysis license_id
      | Some query \<Rightarrow>
          (case analyze_body query json_loads license_id license_text of
             Inl e \<Rightarrow> if is_exception e then get_fallback_analysis license_id else Inl e
           | Inr analysis \<Rightarrow> Inr analysis))"

subsection \<open>\<^verbatim>\<open>LicenseAnalyzer._get_default_compatibility_rules\<close>\<close>

definition get_default_compatibility_rules :: "string \<Rightarrow> dict \<Rightarrow> dict" where
  "get_default_compatibility_rules license_id analysis =
     (let category = get_or analysis ''category'' (JStr ''permissive'') in
      if category = JStr ''permissive'' then
        [(''static_linking'', JObj
            [(''compatible_with'', JList [JStr ''category:any'']),
             (''incompatible_with'', JList []),
             (''requires_review'', JList [])]),
         (''dynamic_linking'', JObj
            [(''compatible_with'', JList [JStr ''category:any'']),
             (''incompatible_with'', JList []),
             (''requires_review'', JList [])]),
         (''distribution'', JObj
            [(''can_distribute_with'', JList [JStr ''category:any'']),
             (''cannot_distribute_with'', JList []),
             (''special_requirements'', JList [JStr ''Include license and copyright notice''])]),
         (''contamination_effect'', JStr ''none''),
         (''notes'', JStr ''Permissive license with minimal restrictions'')]
      else if category = JStr ''copyleft_strong'' then
        [(''static_linking'', JObj
            [(''compatible_with'', JList [JStr license_id, JStr ''category:copyleft_strong'']),
             (''incompatible_with'', JList [JStr ''category:permissive'', JStr ''category:proprietary'']),
             (''requires_review'', JList [JStr ''category:copyleft_weak''])]),
         (''dynamic_linking'', JObj
            [(''compatible_with'', JList [JStr ''category:any'']),
             (''incompatible_with'', JList []),
             (''requires_review'', JList [JStr ''category:proprietary''])]),
         (''distribution'', JObj
            [(''can_distribute_with'', JList [JStr license_id]),
             (''cannot_distribute_with'', JList [JStr ''category:proprietary'']),
             (''special_requirements'', JList
                [JStr ''Source code must be provided'', JStr ''Same license required''])]),
         (''contamination_effect'', JStr ''full''),
         (''notes'', JStr ''Strong copyleft with viral effect'')]
      else if category = JStr ''copyleft_weak'' then
        [(''static_linking'', JObj
            [(''compatible_with'', JList [JStr ''category:permissive'', JStr license_id]),
             (''incompatible_with'', JList []),
             (''requires_review'', JList [JStr ''category:copyleft_strong''])]),
         (''dynamic_linking'', JObj
            [(''compatible_with'', JList [JStr ''category:any'']),
             (''incompatible_with'', JList []),
             (''requires_review'', JList [])]),
         (''distribution'', JObj
            [(''can_distribute_with'', JList [JStr ''category:any'']),
             (''cannot_distribute_with'', JList []),
             (''special_requirements'', JList [JStr ''Allow relinking'', JStr ''Provide LGPL source''])]),
         (''contamination_effect'', JStr ''module''),
         (''notes'', JStr ''Weak copyleft affecting only the library itself'')]
      else
        [(''static_linking'', JObj
            [(''compatible_with'', JList [JStr ''category:any'']),
             (''incompatible_with'', JList []),
             (''requires_review'', JList [])]),
         (''dynamic_linking'', JObj
            [(''compatible_with'', JList [JStr ''category:any'']),
             (''incompatible_with'', JList []),
             (''requires_review'', JList [])]),
         (''distribution'', JObj
            [(''can_distribute_with'', JList [JStr ''category:any'']),
             (''cannot_distribute_with'', JList []),
             (''special_requirements'', JList [])]),
         (''contamination_effect'', JStr ''none''),
         (''notes'', JStr ''Default compatibility rules'')])"

section \<open>The policy data generator (\<^verbatim>\<open>ospac/pipeline/data_generator.py\<close>)\<close>

text \<open>
  The generator's methods build a dictionary, write it to a file and return it. The
  model is the dictionary they build; the time stamp \<^verbatim>\<open>datetime.now().isoformat()\<close>
  is a parameter. The dictionaries with a fixed set of keys that hold the tables are
  records. The tables themselves are keyed by license ids, which are whatever the
  analyzed records hold under \<^verbatim>\<open>"license_id"\<close>.
\<close>

text \<open>
  A dictionary key is hashed and compared with \<^verbatim>\<open>==\<close>: lists and dictionaries are not
  hashable (TypeError), and \<^verbatim>\<open>True\<close> and \<^verbatim>\<open>False\<close> are the same keys as \<^verbatim>\<open>1\<close> and
  \<^verbatim>\<open>0\<close>. \<^verbatim>\<open>hash_key\<close> gives the representative a table stores for a key.
\<close>

fun hash_key :: "json \<Rightarrow> py_error + json" where
  "hash_key JNull = Inr JNull"
| "hash_key (JBool b) = Inr (JInt (if b then 1 else 0))"
| "hash_key (JInt n) = Inr (JInt n)"
| "hash_key (JStr s) = Inr (JStr s)"
| "hash_key (JList xs) = Inl TypeError"
| "hash_key (JObj kvs) = Inl TypeError"

text \<open>
  \<^verbatim>\<open>d.get(k1, {}).get(k2, default)\<close>: the second \<^verbatim>\<open>get\<close> raises AttributeError when
  \<^verbatim>\<open>d[k1]\<close> is present and not a dictionary.
\<close>

definition get_in :: "dict \<Rightarrow> string \<Rightarrow> string \<Rightarrow> json \<Rightarrow> py_error + json" where
  "get_in d k1 k2 dflt =
     (case get_or d k1 (JObj []) of
        JObj inner \<Rightarrow> Inr (get_or inner k2 dflt)
      | _ \<Rightarrow> Inl AttributeError)"

subsection \<open>\<^verbatim>\<open>PolicyDataGenerator._check_license_compatibility\<close>\<close>

definition check_license_compatibility :: "dict \<Rightarrow> dict \<Rightarrow> dict" where
  "check_license_compatibility license1 license2 =
     (let cat1 = get_or license1 ''category'' (JStr ''permissive'');
          cat2 = get_or license2 ''category'' (JStr ''permissive'');
          compatibility =
            [(''static_linking'', JStr ''unknown''),
             (''dynamic_linking'', JStr ''unknown''),
             (''distribution'', JStr ''unknown'')]
      in if cat1 = JStr ''permissive'' \<and> cat2 = JStr ''permissive'' then
           [(''static_linking'', JStr ''compatible''),
            (''dynamic_linking'', JStr ''compatible''),
            (''distribution'', JStr ''compatible'')]
         else if cat1 = JStr ''copyleft_strong'' \<or> cat2 = JStr ''copyleft_strong'' then
           (if cat1 = cat2 then
              [(''static_linking'', JStr ''compatible''),
               (''dynamic_linking'', JStr ''compatible''),
               (''distribution'', JStr ''compatible'')]
            else
              [(''static_linking'', JStr ''incompatible''),
               (''dynamic_linking'', JStr ''review_required''),
               (''distribution'', JStr ''incompatible'')])
         else if cat1 = JStr ''copyleft_weak'' \<or> cat2 = JStr ''copyleft_weak'' then
           [(''static_linking'', JStr ''review_required''),
            (''dynamic_linking'', JStr ''compatible''),
            (''distribution'', JStr ''compatible'')]
         else compatibility)"

subsection \<open>\<^verbatim>\<open>PolicyDataGenerator._generate_compatibility_matrix\<close>\<close>

type_synonym 'v table = "(json \<times> 'v) list"

record matrix =
  matrix_version :: string
  matrix_generated :: string
  matrix_total_licenses :: nat
  matrix_compatibility :: "dict table table"

text \<open>The inner loop fills the row of \<^verbatim>\<open>license1\<close>.\<close>

fun matrix_row :: "dict \<Rightarrow> dict list \<Rightarrow> dict table \<Rightarrow> py_error + dict table" where
  "matrix_row license1 [] row = Inr row"
| "matrix_row license1 (license2 # rest) row =
     (let id2 = get license2 ''license_id'' in
      if \<not> truthy id2 then matrix_row license1 rest row
      else
        (let compat = check_license_compatibility license1 license2 in
         case hash_key id2 of
           Inl e \<Rightarrow> Inl e
         | Inr k2 \<Rightarrow> matrix_row license1 rest (setitem row k2 compat)))"

text \<open>
  The outer loop: the row of \<^verbatim>\<open>id1\<close> starts empty at each record that has this id,
  and is filled by the inner loop over the whole list.
\<close>

fun matrix_rows ::
    "dict list \<Rightarrow> dict list \<Rightarrow> dict table table \<Rightarrow> py_error + dict table table" where
  "matrix_rows [] licenses tbl = Inr tbl"
| "matrix_rows (license1 # rest) licenses tbl =
     (let id1 = get license1 ''license_id'' in
      if \<not> truthy id1 then matrix_rows rest licenses tbl
      else
        (case hash_key id1 of
           Inl e \<Rightarrow> Inl e
         | Inr k1 \<Rightarrow>
             (case matrix_row license1 licenses [] of
                Inl e \<Rightarrow> Inl e
              | Inr row \<Rightarrow> matrix_rows rest licenses (setitem tbl k1 row))))"

definition generate_compatibility_matrix :: "string \<Rightarrow> dict list \<Rightarrow> py_error + matrix" where
  "generate_compatibility_matrix now licenses =
     (case matrix_rows licenses licenses [] of
        Inl e \<Rightarrow> Inl e
      | Inr tbl \<Rightarrow>
          Inr \<lparr>matrix_version = ''1.0'',
               matrix_generated = now,
               matrix_total_licenses = length licenses,
               matrix_compatibility = tbl\<rparr>)"

subsection \<open>\<^verbatim>\<open>PolicyDataGenerator._generate_obligation_database\<close>\<close>

record obligation_database =
  obligations_version :: string
  obligations_generated :: string
  obligations_licenses :: "dict table"

text \<open>The dictionary stored for one license; its items are evaluated in order.\<close>

definition obligation_entry :: "dict \<Rightarrow> py_error + dict" where
  "obligation_entry license_data =
     (case get_in license_data ''conditions'' ''include_copyright'' (JBool False) of
        Inl e \<Rightarrow> Inl e
      | Inr attribution \<Rightarrow>
     (case get_in license_data ''conditions'' ''disclose_source'' (JBool False) of
        Inl e \<Rightarrow> Inl e
      | Inr source_disclosure \<Rightarrow>
     (case get_in license_data ''conditions'' ''include_notice'' (JBool False) of
        Inl e \<Rightarrow> Inl e
      | Inr notice \<Rightarrow>
          Inr [(''obligations'', get_or license_data ''obligations'' (JList [])),
               (''key_requirements'', get_or license_data ''key_requirements'' (JList [])),
               (''conditions'', get_or license_data ''conditions'' (JObj [])),
               (''attribution_required'', attribution),
               (''source_disclosure_required'', source_disclosure),
               (''notice_required'', notice)])))"

fun obligation_loop :: "dict list \<Rightarrow> dict table \<Rightarrow> py_error + dict table" where
  "obligation_loop [] tbl = Inr tbl"
| "obligation_loop (license_data # rest) tbl =
     (let license_id = get license_data ''license_id'' in
      if \<not> truthy license_id then obligation_loop rest tbl
      else
        (case obligation_entry license_data of
           Inl e \<Rightarrow> Inl e
         | Inr entry \<Rightarrow>
             (case hash_key license_id of
                Inl e \<Rightarrow> Inl e
              | Inr k \<Rightarrow> obligation_loop rest (setitem tbl k entry))))"

definition generate_obligation_database ::
    "string \<Rightarrow> dict list \<Rightarrow> py_error + obligation_database" where
  "generate_obligation_database now licenses =
     (case obligation_loop licenses [] of
        Inl e \<Rightarrow> Inl e
      | Inr tbl \<Rightarrow>
          Inr \<lparr>obligations_version = ''1.0'',
               obligations_generated = now,
               obligations_licenses = tbl\<rparr>)"

subsection \<open>\<^verbatim>\<open>PolicyDataGenerator._generate_master_database\<close>\<close>

text \<open>
  An entry of the master database holds the license id as it is and dictionaries of
  JSON values, so it is a record too.
\<close>

record master_entry =
  entry_id :: json
  entry_name :: json
  entry_category :: json
  entry_permissions :: json
  entry_conditions :: json
  entry_limitations :: json
  entry_obligations :: json
  entry_compatibility_rules :: json
  entry_spdx_metadata :: dict

record master_database =
  master_version :: string
  master_generated :: string
  master_total_licenses :: nat
  master_licenses :: "master_entry table"

text \<open>\<^verbatim>\<open>table.get(key, {})\<close> on a table keyed by license ids.\<close>

definition table_get :: "dict table \<Rightarrow> json \<Rightarrow> py_error + dict" where
  "table_get tbl key =
     (case hash_key key of
        Inl e \<Rightarrow> Inl e
      | Inr k \<Rightarrow> Inr (case map_of tbl k of None \<Rightarrow> [] | Some d \<Rightarrow> d))"

definition master_db_entry :: "obligation_database \<Rightarrow> dict \<Rightarrow> json \<Rightarrow> py_error + master_entry" where
  "master_db_entry obligation_db license_data license_id =
     (case table_get (obligations_licenses obligation_db) license_id of
        Inl e \<Rightarrow> Inl e
      | Inr obligation \<Rightarrow>
     (case get_in license_data ''spdx_data'' ''isOsiApproved'' (JBool False) of
        Inl e \<Rightarrow> Inl e
      | Inr is_osi_approved \<Rightarrow>
     (case get_in license_data ''spdx_data'' ''isFsfLibre'' (JBool False) of
        Inl e \<Rightarrow> Inl e
      | Inr is_fsf_libre \<Rightarrow>
     (case get_in license_data ''spdx_data'' ''isDeprecatedLicenseId'' (JBool False) of
        Inl e \<Rightarrow> Inl e
      | Inr is_deprecated \<Rightarrow>
          Inr \<lparr>entry_id = license_id,
               entry_name = get_or license_data ''name'' license_id,
               entry_category = get license_data ''category'',
               entry_permissions = get license_data ''permissions'',
               entry_conditions = get license_data ''conditions'',
               entry_limitations = get license_data ''limitations'',
               entry_obligations = get_or obligation ''obligations'' (JList []),
               entry_compatibility_rules = get_or license_data ''compatibility_rules'' (JObj []),
               entry_spdx_metadata =
                 [(''is_osi_approved'', is_osi_approved),
                  (''is_fsf_libre'', is_fsf_libre),
                  (''is_deprecated'', is_deprecated)]\<rparr>))))"

fun master_loop ::
    "obligation_database \<Rightarrow> dict list \<Rightarrow> master_entry table \<Rightarrow> py_error + master_entry table" where
  "master_loop obligation_db [] tbl = Inr tbl"
| "master_loop obligation_db (license_data # rest) tbl =
     (let license_id = get license_data ''license_id'' in
      if \<not> truthy license_id then master_loop obligation_db rest tbl
      else
        (case master_db_entry obligation_db license_data license_id of
           Inl e \<Rightarrow> Inl e
         | Inr entry \<Rightarrow>
             (case hash_key license_id of
                Inl e \<Rightarrow> Inl e
              | Inr k \<Rightarrow> master_loop obligation_db rest (setitem tbl k entry))))"

definition generate_master_database ::
    "string \<Rightarrow> dict list \<Rightarrow> matrix \<Rightarrow> obligation_database \<Rightarrow> py_error + master_database" where
  "generate_master_database now licenses compatibility_matrix obligation_db =
     (case master_loop obligation_db licenses [] of
        Inl e \<Rightarrow> Inl e
      | Inr tbl \<Rightarrow>
          Inr \<lparr>master_version = ''1.0'',
               master_generated = now,
               master_total_licenses = length licenses,
               master_licenses = tbl\<rparr>)"

subsection \<open>\<^verbatim>\<open>PolicyDataGenerator._validate_generated_data\<close>\<close>

text \<open>
  A message \<^verbatim>\<open>f"{license_id}: Missing category"\<close> is kept as the pair of the value
  that is formatted and the text that follows it.
\<close>

type_synonym message = "json \<times> string"

record report =
  report_total_licenses :: nat
  missing_category :: nat
  missing_permissions :: nat
  missing_obligations :: nat
  missing_compatibility :: nat
  validation_errors :: "message list"

record validation_report = report +
  is_valid :: bool

definition validate_license :: "dict \<Rightarrow> report \<Rightarrow> report" where
  "validate_license license_data report =
     (let license_id = get_or license_data ''license_id'' (JStr ''unknown'');
          report =
            (if \<not> truthy (get license_data ''category'')
             then report\<lparr>missing_category := missing_category report + 1,
                         validation_errors :=
                           validation_errors report @ [(license_id, '': Missing category'')]\<rparr>
             else report);
          report =
            (if \<not> truthy (get license_data ''permissions'')
             then report\<lparr>missing_permissions := missing_permissions report + 1,
                         validation_errors :=
                           validation_errors report @ [(license_id, '': Missing permissions'')]\<rparr>
             else report);
          report =
            (if \<not> truthy (get license_data ''obligations'')
             then report\<lparr>missing_obligations := missing_obligations report + 1\<rparr>
             else report);
          report =
            (if \<not> truthy (get license_data ''compatibility_rules'')
             then report\<lparr>missing_compatibility := missing_compatibility report + 1\<rparr>
             else report)
      in report)"

fun validate_loop :: "dict list \<Rightarrow> report \<Rightarrow> report" where
  "validate_loop [] report = report"
| "validate_loop (license_data # rest) report =
     validate_loop rest (validate_license license_data report)"

definition validate_generated_data :: "dict list \<Rightarrow> validation_report" where
  "validate_generated_data licenses =
     (let report =
            validate_loop licenses
              \<lparr>report_total_licenses = length licenses,
               missing_category = 0,
               missing_permissions = 0,
               missing_obligations = 0,
               missing_compatibility = 0,
               validation_errors = []\<rparr>
      in report.extend report
           (validation_report.fields (length (validation_errors report) = 0)))"

section \<open>Notions used by the properties\<close>

text \<open>\<^verbatim>\<open>not license_data.get(k)\<close>: the key is absent or its value is empty.\<close>

definition missing :: "string \<Rightarrow> dict \<Rightarrow> bool" where
  "missing k license_data = (\<not> truthy (get license_data k))"

text \<open>
  The reply holds an opening brace before a closing brace: the condition under which
  the analyzer cuts a JSON object out of it.
\<close>

fun has_json_object :: "string \<Rightarrow> bool" where
  "has_json_object [] = False"
| "has_json_object (c # cs) = ((c = CHR ''{'' \<and> CHR ''}'' \<in> set cs) \<or> has_json_object cs)"

text \<open>
  Backends and parsers at which the properties are evaluated: a backend whose reply is
  the empty JSON object, one whose reply is plain text, and \<^verbatim>\<open>json.loads\<close> on the
  text of the empty object.
\<close>

definition reply_empty_object :: agent where
  "reply_empty_object prompt = Inr ''{}''"

definition reply_plain_text :: agent where
  "reply_plain_text prompt = Inr ''I cannot analyze this license.''"

text \<open>Backends whose query is cancelled or interrupted while it is awaited.\<close>

definition query_cancelled :: agent where
  "query_cancelled prompt = Inl CancelledError"

definition query_interrupted :: agent where
  "query_interrupted prompt = Inl KeyboardInterrupt"

definition loads_empty_object :: loads where
  "loads_empty_object s = (if s = ''{}'' then Inr [] else Inl JSONDecodeError)"

text \<open>
  The key under which the tables store a record: the hashed license id, for a record
  whose \<^verbatim>\<open>license_id\<close> is present and not empty.
\<close>

definition stored_key :: "dict \<Rightarrow> json option" where
  "stored_key license_data =
     (let license_id = get license_data ''license_id'' in
      if truthy license_id
      then (case hash_key license_id of Inl e \<Rightarrow> None | Inr k \<Rightarrow> Some k)
      else None)"

definition stored_keys :: "dict list \<Rightarrow> json set" where
  "stored_keys licenses = set (List.map_filter stored_key licenses)"

text \<open>The last record of the list that is stored under the key.\<close>

fun last_with :: "json \<Rightarrow> dict list \<Rightarrow> dict option" where
  "last_with k [] = None"
| "last_with k (l # ls) =
     (case last_with k ls of
        Some l' \<Rightarrow> Some l'
      | None \<Rightarrow> if stored_key l = Some k then Some l else None)"

text \<open>
  The records on which the generators raise nothing: a license id that is present and
  not empty is hashable, and \<^verbatim>\<open>conditions\<close> and \<^verbatim>\<open>spdx_data\<close> are dictionaries where they
  are present.
\<close>

fun is_dict_or_absent :: "json option \<Rightarrow> bool" where
  "is_dict_or_absent None = True"
| "is_dict_or_absent (Some (JObj kvs)) = True"
| "is_dict_or_absent (Some _) = False"

definition well_formed :: "dict \<Rightarrow> bool" where
  "well_formed license_data =
     (if truthy (get license_data ''license_id'')
      then stored_key license_data \<noteq> None
           \<and> is_dict_or_absent (map_of license_data ''conditions'')
           \<and> is_dict_or_absent (map_of license_data ''spdx_data'')
      else True)"

text \<open>
  Analyzed records at which the properties of the tables are evaluated: a permissive
  and a strong copyleft license, and a record without a license id.
\<close>

definition sample_licenses :: "dict list" where
  "sample_licenses =
     [[(''license_id'', JStr ''MIT''), (''category'', JStr ''permissive'')],
      [(''license_id'', JStr ''GPL-3.0-only''), (''category'', JStr ''copyleft_strong'')],
      [(''category'', JStr ''permissive'')]]"

section \<open>Properties of the fallback analysis\<close>

lemmas fallback_simps =
  get_fallback_analysis_def default_analysis_def setitem2_def get_def get_or_def

text \<open>\<^verbatim>\<open>sub in s\<close> holds exactly when \<^verbatim>\<open>s\<close> splits around an occurrence of \<^verbatim>\<open>sub\<close>.\<close>

lemma str_contains_iff: "str_contains sub s \<longleftrightarrow> (\<exists>p q. s = p @ sub @ q)"
proof (induction s)
  case Nil
  then show ?case by auto
next
  case (Cons c cs)
  show ?case
  proof
    assume "str_contains sub (c # cs)"
    then consider "prefix sub (c # cs)" | "str_contains sub cs" by auto
    then show "\<exists>p q. c # cs = p @ sub @ q"
    proof cases
      case 1
      then obtain q where "c # cs = sub @ q" by (auto simp: prefix_def)
      then have "c # cs = [] @ sub @ q" by simp
      then show ?thesis by blast
    next
      case 2
      then obtain p q where "cs = p @ sub @ q" using Cons.IH by blast
      then have "c # cs = (c # p) @ sub @ q" by simp
      then show ?thesis by blast
    qed
  next
    assume "\<exists>p q. c # cs = p @ sub @ q"
    then obtain p q where pq: "c # cs = p @ sub @ q" by blast
    show "str_contains sub (c # cs)"
    proof (cases p)
      case Nil
      with pq have "prefix sub (c # cs)" by (simp add: prefix_def)
      then show ?thesis by simp
    next
      case (Cons a p')
      with pq have "cs = p' @ sub @ q" by simp
      then have "str_contains sub cs" using Cons.IH by blast
      then show ?thesis by simp
    qed
  qed
qed

text \<open>An id that contains "LGPL" or "AGPL" contains "GPL".\<close>

lemma LGPL_contains_GPL: "str_contains ''LGPL'' s \<Longrightarrow> str_contains ''GPL'' s"
proof -
  assume "str_contains ''LGPL'' s"
  then obtain p q where "s = p @ ''LGPL'' @ q" unfolding str_contains_iff by blast
  then have "s = (p @ ''L'') @ ''GPL'' @ q" by simp
  then show ?thesis unfolding str_contains_iff by blast
qed

lemma AGPL_contains_GPL: "str_contains ''AGPL'' s \<Longrightarrow> str_contains ''GPL'' s"
proof -
  assume "str_contains ''AGPL'' s"
  then obtain p q where "s = p @ ''AGPL'' @ q" unfolding str_contains_iff by blast
  then have "s = (p @ ''A'') @ ''GPL'' @ q" by simp
  then show ?thesis unfolding str_contains_iff by blast
qed

text \<open>
  The first branch of the fallback analysis tests for "GPL", so it takes every id that
  contains "LGPL": the branch for "LGPL" is never reached.
\<close>

lemma fallback_LGPL_takes_GPL_branch:
  assumes "str_contains ''LGPL'' license_id"
  shows "\<exists>d. get_fallback_analysis license_id = Inr d
           \<and> get d ''category'' = JStr ''copyleft_strong''"
  using LGPL_contains_GPL [OF assms] by (simp add: fallback_simps)

text \<open>
  Claim C1, at the id "LGPL-2.1-only". The claim says that the fallback analysis of an
  id that contains "LGPL" has the category copyleft_weak, the static linking restriction
  "weak" and the three obligations of the LGPL branch. The code returns the category
  copyleft_strong, the restriction "strong" and the four obligations of the GPL branch.
\<close>

theorem fallback_LGPL_2_1_only_is_copyleft_strong:
  "\<exists>d. get_fallback_analysis ''LGPL-2.1-only'' = Inr d
     \<and> get d ''category'' = JStr ''copyleft_strong''
     \<and> get d ''category'' \<noteq> JStr ''copyleft_weak''
     \<and> get_in d ''conditions'' ''disclose_source'' JNull = Inr (JBool True)
     \<and> get_in d ''compatibility'' ''static_linking_restrictions'' JNull = Inr (JStr ''strong'')
     \<and> get d ''obligations'' =
         JList [JStr ''Disclose source code'', JStr ''Include license text'',
                JStr ''State changes'', JStr ''Use same license for derivatives'']"
  by (simp add: fallback_simps get_in_def)

text \<open>
  Claim C7. Without a backend, the analysis of a license does not depend on the license
  text: any two texts give the same result for the same id, which is the fallback
  analysis of the id.
\<close>

theorem analyze_license_without_agent_ignores_text:
  "analyze_license None json_loads license_id t1 = analyze_license None json_loads license_id t2
   \<and> analyze_license None json_loads license_id t1 = get_fallback_analysis license_id"
  by (simp add: analyze_license_def)

section \<open>Properties of the default compatibility rules\<close>

text \<open>
  Claim C5 as stated fails: two ids with the same category copyleft_strong get
  different rule sets, since the block names the license id itself.
\<close>

theorem default_rules_depend_on_license_id:
  "get_in (get_default_compatibility_rules ''GPL-2.0-only'' [(''category'', JStr ''copyleft_strong'')])
      ''static_linking'' ''compatible_with'' JNull
   \<noteq> get_in (get_default_compatibility_rules ''GPL-3.0-only'' [(''category'', JStr ''copyleft_strong'')])
      ''static_linking'' ''compatible_with'' JNull"
  by (simp add: get_default_compatibility_rules_def get_in_def get_or_def)

text \<open>The four blocks of the default rules, read field by field.\<close>

lemma default_rules_permissive:
  assumes "get_or analysis ''category'' (JStr ''permissive'') = JStr ''permissive''"
  shows "get_default_compatibility_rules license_id analysis =
    [(''static_linking'', JObj
        [(''compatible_with'', JList [JStr ''category:any'']),
         (''incompatible_with'', JList []),
         (''requires_review'', JList [])]),
     (''dynamic_linking'', JObj
        [(''compatible_with'', JList [JStr ''category:any'']),
         (''incompatible_with'', JList []),
         (''requires_review'', JList [])]),
     (''distribution'', JObj
        [(''can_distribute_with'', JList [JStr ''category:any'']),
         (''cannot_distribute_with'', JList []),
         (''special_requirements'', JList [JStr ''Include license and copyright notice''])]),
     (''contamination_effect'', JStr ''none''),
     (''notes'', JStr ''Permissive license with minimal restrictions'')]"
  using assms by (simp add: get_default_compatibility_rules_def)

lemma default_rules_copyleft_strong:
  assumes "get_or analysis ''category'' (JStr ''permissive'') = JStr ''copyleft_strong''"
  shows "get_default_compatibility_rules license_id analysis =
    [(''static_linking'', JObj
        [(''compatible_with'', JList [JStr license_id, JStr ''category:copyleft_strong'']),
         (''incompatible_with'', JList [JStr ''category:permissive'', JStr ''category:proprietary'']),
         (''requires_review'', JList [JStr ''category:copyleft_weak''])]),
     (''dynamic_linking'', JObj
        [(''compatible_with'', JList [JStr ''category:any'']),
         (''incompatible_with'', JList []),
         (''requires_review'', JList [JStr ''category:proprietary''])]),
     (''distribution'', JObj
        [(''can_distribute_with'', JList [JStr license_id]),
         (''cannot_distribute_with'', JList [JStr ''category:proprietary'']),
         (''special_requirements'', JList
            [JStr ''Source code must be provided'', JStr ''Same license required''])]),
     (''contamination_effect'', JStr ''full''),
     (''notes'', JStr ''Strong copyleft with viral effect'')]"
  using assms by (simp add: get_default_compatibility_rules_def)

lemma default_rules_copyleft_weak:
  assumes "get_or analysis ''category'' (JStr ''permissive'') = JStr ''copyleft_weak''"
  shows "get_default_compatibility_rules license_id analysis =
    [(''static_linking'', JObj
        [(''compatible_with'', JList [JStr ''category:permissive'', JStr license_id]),
         (''incompatible_with'', JList []),
         (''requires_review'', JList [JStr ''category:copyleft_strong''])]),
     (''dynamic_linking'', JObj
        [(''compatible_with'', JList [JStr ''category:any'']),
         (''incompatible_with'', JList []),
         (''requires_review'', JList [])]),
     (''distribution'', JObj
        [(''can_distribute_with'', JList [JStr ''category:any'']),
         (''cannot_distribute_with'', JList []),
         (''special_requirements'', JList [JStr ''Allow relinking'', JStr ''Provide LGPL source''])]),
     (''contamination_effect'', JStr ''module''),
     (''notes'', JStr ''Weak copyleft affecting only the library itself'')]"
  using assms by (simp add: get_default_compatibility_rules_def)

lemma default_rules_other:
  assumes "get_or analysis ''category'' (JStr ''permissive'') \<noteq> JStr ''permissive''"
      and "get_or analysis ''category'' (JStr ''permissive'') \<noteq> JStr ''copyleft_strong''"
      and "get_or analysis ''category'' (JStr ''permissive'') \<noteq> JStr ''copyleft_weak''"
  shows "get_default_compatibility_rules license_id analysis =
    [(''static_linking'', JObj
        [(''compatible_with'', JList [JStr ''category:any'']),
         (''incompatible_with'', JList []),
         (''requires_review'', JList [])]),
     (''dynamic_linking'', JObj
        [(''compatible_with'', JList [JStr ''category:any'']),
         (''incompatible_with'', JList []),
         (''requires_review'', JList [])]),
     (''distribution'', JObj
        [(''can_distribute_with'', JList [JStr ''category:any'']),
         (''cannot_distribute_with'', JList []),
         (''special_requirements'', JList [])]),
     (''contamination_effect'', JStr ''none''),
     (''notes'', JStr ''Default compatibility rules'')]"
  using assms by (simp add: get_default_compatibility_rules_def)

text \<open>
  Claim C5, amended. The default rules are a function of the license id and of the
  category (permissive when absent): for one id, two classifications with the same
  category give the same rules. For each id the result is one of four blocks, those of
  the categories permissive, copyleft_strong, copyleft_weak and of any other. The block of
  copyleft_strong lists the license id itself and category:copyleft_strong as compatible
  for static linking, category:permissive and category:proprietary as incompatible,
  category:copyleft_weak as requiring review, category:proprietary as requiring review
  for dynamic linking, which is otherwise unrestricted, the license id as the
  only license to distribute with, and has the contamination effect "full". The block
  of copyleft_weak lists category:permissive and the license id itself as compatible
  for static linking, category:copyleft_strong as requiring review, leaves dynamic
  linking unrestricted, and has the contamination effect "module". In both, two ids
  that differ get different rules. The blocks of permissive and of any other category
  list category:any as compatible for both kinds of linking, have the contamination
  effect "none", and do not depend on the id.
\<close>

theorem default_rules_by_category_and_id:
  assumes "get_or a1 ''category'' (JStr ''permissive'') = c"
      and "get_or a2 ''category'' (JStr ''permissive'') = c"
  shows "get_default_compatibility_rules A a1 = get_default_compatibility_rules A a2
    \<and> (c = JStr ''copyleft_strong'' \<longrightarrow>
          get_in (get_default_compatibility_rules A a1) ''static_linking'' ''compatible_with'' JNull
            = Inr (JList [JStr A, JStr ''category:copyleft_strong''])
        \<and> get_in (get_default_compatibility_rules A a1) ''static_linking'' ''incompatible_with'' JNull
            = Inr (JList [JStr ''category:permissive'', JStr ''category:proprietary''])
        \<and> get_in (get_default_compatibility_rules A a1) ''static_linking'' ''requires_review'' JNull
            = Inr (JList [JStr ''category:copyleft_weak''])
        \<and> get_in (get_default_compatibility_rules A a1) ''dynamic_linking'' ''compatible_with'' JNull
            = Inr (JList [JStr ''category:any''])
        \<and> get_in (get_default_compatibility_rules A a1) ''dynamic_linking'' ''incompatible_with'' JNull
            = Inr (JList [])
        \<and> get_in (get_default_compatibility_rules A a1) ''dynamic_linking'' ''requires_review'' JNull
            = Inr (JList [JStr ''category:proprietary''])
        \<and> get_in (get_default_compatibility_rules A a1) ''distribution'' ''can_distribute_with'' JNull
            = Inr (JList [JStr A])
        \<and> get (get_default_compatibility_rules A a1) ''contamination_effect'' = JStr ''full''
        \<and> (get_default_compatibility_rules A a1 = get_default_compatibility_rules B a2) = (A = B))
    \<and> (c = JStr ''copyleft_weak'' \<longrightarrow>
          get_in (get_default_compatibility_rules A a1) ''static_linking'' ''compatible_with'' JNull
            = Inr (JList [JStr ''category:permissive'', JStr A])
        \<and> get_in (get_default_compatibility_rules A a1) ''static_linking'' ''incompatible_with'' JNull
            = Inr (JList [])
        \<and> get_in (get_default_compatibility_rules A a1) ''static_linking'' ''requires_review'' JNull
            = Inr (JList [JStr ''category:copyleft_strong''])
        \<and> get_in (get_default_compatibility_rules A a1) ''dynamic_linking'' ''compatible_with'' JNull
            = Inr (JList [JStr ''category:any''])
        \<and> get_in (get_default_compatibility_rules A a1) ''dynamic_linking'' ''incompatible_with'' JNull
            = Inr (JList [])
        \<and> get_in (get_default_compatibility_rules A a1) ''dynamic_linking'' ''requires_review'' JNull
            = Inr (JList [])
        \<and> get_in (get_default_compatibility_rules A a1) ''distribution'' ''can_distribute_with'' JNull
            = Inr (JList [JStr ''category:any''])
        \<and> get (get_default_compatibility_rules A a1) ''contamination_effect'' = JStr ''module''
        \<and> (get_default_compatibility_rules A a1 = get_default_compatibility_rules B a2) = (A = B))
    \<and> (c \<noteq> JStr ''copyleft_strong'' \<and> c \<noteq> JStr ''copyleft_weak'' \<longrightarrow>
          get_in (get_default_compatibility_rules A a1) ''static_linking'' ''compatible_with'' JNull
            = Inr (JList [JStr ''category:any''])
        \<and> get_in (get_default_compatibility_rules A a1) ''static_linking'' ''incompatible_with'' JNull
            = Inr (JList [])
        \<and> get_in (get_default_compatibility_rules A a1) ''static_linking'' ''requires_review'' JNull
            = Inr (JList [])
        \<and> get_in (get_default_compatibility_rules A a1) ''dynamic_linking'' ''compatible_with'' JNull
            = Inr (JList [JStr ''category:any''])
        \<and> get_in (get_default_compatibility_rules A a1) ''dynamic_linking'' ''incompatible_with'' JNull
            = Inr (JList [])
        \<and> get_in (get_default_compatibility_rules A a1) ''dynamic_linking'' ''requires_review'' JNull
            = Inr (JList [])
        \<and> get_in (get_default_compatibility_rules A a1) ''distribution'' ''can_distribute_with'' JNull
            = Inr (JList [JStr ''category:any''])
        \<and> get (get_default_compatibility_rules A a1) ''contamination_effect'' = JStr ''none''
        \<and> get_default_compatibility_rules A a1 = get_default_compatibility_rules B a2)
    \<and> get (get_default_compatibility_rules A a1) ''notes'' \<in>
         {JStr ''Permissive license with minimal restrictions'',
          JStr ''Strong copyleft with viral effect'',
          JStr ''Weak copyleft affecting only the library itself'',
          JStr ''Default compatibility rules''}
    \<and> get_default_compatibility_rules A a1 \<in>
         (\<lambda>k. get_default_compatibility_rules A [(''category'', JStr k)]) `
           {''permissive'', ''copyleft_strong'', ''copyleft_weak'', ''public_domain''}"
proof -
  consider (permissive) "c = JStr ''permissive''"
    | (strong) "c = JStr ''copyleft_strong''"
    | (weak) "c = JStr ''copyleft_weak''"
    | (other) "c \<noteq> JStr ''permissive''" "c \<noteq> JStr ''copyleft_strong''" "c \<noteq> JStr ''copyleft_weak''"
    by blast
  then show ?thesis
  proof cases
    case permissive
    with assms have 1: "get_or a1 ''category'' (JStr ''permissive'') = JStr ''permissive''"
      and 2: "get_or a2 ''category'' (JStr ''permissive'') = JStr ''permissive''" by simp_all
    show ?thesis
      unfolding default_rules_permissive [OF 1] default_rules_permissive [OF 2]
      using permissive by (simp add: get_in_def get_def get_or_def get_default_compatibility_rules_def)
  next
    case strong
    with assms have 1: "get_or a1 ''category'' (JStr ''permissive'') = JStr ''copyleft_strong''"
      and 2: "get_or a2 ''category'' (JStr ''permissive'') = JStr ''copyleft_strong''" by simp_all
    show ?thesis
      unfolding default_rules_copyleft_strong [OF 1] default_rules_copyleft_strong [OF 2]
      using strong by (simp add: get_in_def get_def get_or_def get_default_compatibility_rules_def)
  next
    case weak
    with assms have 1: "get_or a1 ''category'' (JStr ''permissive'') = JStr ''copyleft_weak''"
      and 2: "get_or a2 ''category'' (JStr ''permissive'') = JStr ''copyleft_weak''" by simp_all
    show ?thesis
      unfolding default_rules_copyleft_weak [OF 1] default_rules_copyleft_weak [OF 2]
      using weak by (simp add: get_in_def get_def get_or_def get_default_compatibility_rules_def)
  next
    case other
    with assms have 1: "get_or a1 ''category'' (JStr ''permissive'') \<noteq> JStr ''permissive''"
        "get_or a1 ''category'' (JStr ''permissive'') \<noteq> JStr ''copyleft_strong''"
        "get_or a1 ''category'' (JStr ''permissive'') \<noteq> JStr ''copyleft_weak''"
      and 2: "get_or a2 ''category'' (JStr ''permissive'') \<noteq> JStr ''permissive''"
        "get_or a2 ''category'' (JStr ''permissive'') \<noteq> JStr ''copyleft_strong''"
        "get_or a2 ''category'' (JStr ''permissive'') \<noteq> JStr ''copyleft_weak''" by simp_all
    show ?thesis
      unfolding default_rules_other [OF 1] default_rules_other [OF 2]
      using other by (simp add: get_in_def get_def get_or_def get_default_compatibility_rules_def)
  qed
qed

text \<open>
  The theorem at a strong copyleft license, a weak copyleft license and a license in the
  public domain.
\<close>

theorem default_rules_by_category_and_id_witness:
  "get_or [(''category'', JStr ''copyleft_strong'')] ''category'' (JStr ''permissive'')
     = JStr ''copyleft_strong''
   \<and> get_in (get_default_compatibility_rules ''GPL-3.0-only'' [(''category'', JStr ''copyleft_strong'')])
        ''static_linking'' ''compatible_with'' JNull
       = Inr (JList [JStr ''GPL-3.0-only'', JStr ''category:copyleft_strong''])
   \<and> get_or [(''category'', JStr ''copyleft_weak'')] ''category'' (JStr ''permissive'')
     = JStr ''copyleft_weak''
   \<and> get_in (get_default_compatibility_rules ''MPL-2.0'' [(''category'', JStr ''copyleft_weak'')])
        ''static_linking'' ''compatible_with'' JNull
       = Inr (JList [JStr ''category:permissive'', JStr ''MPL-2.0''])
   \<and> get_default_compatibility_rules ''MPL-2.0'' [(''category'', JStr ''copyleft_weak'')]
       \<noteq> get_default_compatibility_rules ''EPL-2.0'' [(''category'', JStr ''copyleft_weak'')]
   \<and> get_or [(''category'', JStr ''public_domain'')] ''category'' (JStr ''permissive'')
     = JStr ''public_domain''
   \<and> get_or [(''category'', JStr ''public_domain''), (''license_id'', JStr ''CC0-1.0'')]
        ''category'' (JStr ''permissive'')
     = JStr ''public_domain''
   \<and> get_default_compatibility_rules ''Unlicense'' [(''category'', JStr ''public_domain'')]
     = get_default_compatibility_rules ''CC0-1.0''
         [(''category'', JStr ''public_domain''), (''license_id'', JStr ''CC0-1.0'')]"
proof -
  have s: "get_or [(''category'', JStr ''copyleft_strong'')] ''category'' (JStr ''permissive'')
     = JStr ''copyleft_strong''"
    by (simp add: get_or_def)
  have w: "get_or [(''category'', JStr ''copyleft_weak'')] ''category'' (JStr ''permissive'')
     = JStr ''copyleft_weak''"
    by (simp add: get_or_def)
  have p: "get_or [(''category'', JStr ''public_domain'')] ''category'' (JStr ''permissive'')
     = JStr ''public_domain''"
    by (simp add: get_or_def)
  have q: "get_or [(''category'', JStr ''public_domain''), (''license_id'', JStr ''CC0-1.0'')]
        ''category'' (JStr ''permissive'')
     = JStr ''public_domain''"
    by (simp add: get_or_def)
  note ts = default_rules_by_category_and_id [OF s s, of "''GPL-3.0-only''" "''GPL-3.0-only''",
      THEN conjunct2, THEN conjunct1, THEN mp, OF refl]
  from ts have 1: "get_in (get_default_compatibility_rules ''GPL-3.0-only'' [(''category'', JStr ''copyleft_strong'')])
        ''static_linking'' ''compatible_with'' JNull
       = Inr (JList [JStr ''GPL-3.0-only'', JStr ''category:copyleft_strong''])"
    by (rule conjunct1)
  note tw = default_rules_by_category_and_id [OF w w, of "''MPL-2.0''" "''EPL-2.0''",
      THEN conjunct2, THEN conjunct2, THEN conjunct1, THEN mp, OF refl]
  from tw have 2: "get_in (get_default_compatibility_rules ''MPL-2.0'' [(''category'', JStr ''copyleft_weak'')])
        ''static_linking'' ''compatible_with'' JNull
       = Inr (JList [JStr ''category:permissive'', JStr ''MPL-2.0''])"
    by (rule conjunct1)
  note tw8 = tw [THEN conjunct2, THEN conjunct2, THEN conjunct2, THEN conjunct2,
      THEN conjunct2, THEN conjunct2, THEN conjunct2, THEN conjunct2]
  from tw8 have 3: "get_default_compatibility_rules ''MPL-2.0'' [(''category'', JStr ''copyleft_weak'')]
       \<noteq> get_default_compatibility_rules ''EPL-2.0'' [(''category'', JStr ''copyleft_weak'')]"
    by simp
  have n: "JStr ''public_domain'' \<noteq> JStr ''copyleft_strong'' \<and> JStr ''public_domain'' \<noteq> JStr ''copyleft_weak''"
    by simp
  note tp = default_rules_by_category_and_id [OF p q, of "''Unlicense''" "''CC0-1.0''",
      THEN conjunct2, THEN conjunct2, THEN conjunct2, THEN conjunct1, THEN mp, OF n]
  note 4 = tp [THEN conjunct2, THEN conjunct2, THEN conjunct2, THEN conjunct2,
      THEN conjunct2, THEN conjunct2, THEN conjunct2, THEN conjunct2]
  from s w p q 1 2 3 4 show ?thesis by (intro conjI)
qed

section \<open>Properties of the pairwise compatibility check\<close>

text \<open>
  Claim C2 as stated fails: two licenses of the category public_domain do not get
  "compatible" but "unknown", and two licenses of the category copyleft_weak get
  "review_required" for static linking.
\<close>

theorem same_category_not_always_compatible:
  "get (check_license_compatibility
          [(''license_id'', JStr ''CC0-1.0''), (''category'', JStr ''public_domain'')]
          [(''license_id'', JStr ''Unlicense''), (''category'', JStr ''public_domain'')])
     ''static_linking'' \<noteq> JStr ''compatible''"
  by (simp add: check_license_compatibility_def get_def get_or_def)

text \<open>
  Claim C2, amended. For two licenses with the same category \<open>c\<close> (permissive when
  absent): all three dimensions are "compatible" when \<open>c\<close> is permissive or
  copyleft_strong; static linking is "review_required" and the other two are
  "compatible" when \<open>c\<close> is copyleft_weak; all three are "unknown" for every other
  category, public_domain and proprietary among them.
\<close>

theorem same_category_compatibility:
  assumes "get_or license1 ''category'' (JStr ''permissive'') = c"
      and "get_or license2 ''category'' (JStr ''permissive'') = c"
  shows "check_license_compatibility license1 license2 =
    (if c = JStr ''permissive'' \<or> c = JStr ''copyleft_strong'' then
       [(''static_linking'', JStr ''compatible''),
        (''dynamic_linking'', JStr ''compatible''),
        (''distribution'', JStr ''compatible'')]
     else if c = JStr ''copyleft_weak'' then
       [(''static_linking'', JStr ''review_required''),
        (''dynamic_linking'', JStr ''compatible''),
        (''distribution'', JStr ''compatible'')]
     else
       [(''static_linking'', JStr ''unknown''),
        (''dynamic_linking'', JStr ''unknown''),
        (''distribution'', JStr ''unknown'')])"
  using assms by (simp add: check_license_compatibility_def Let_def)

theorem same_category_compatibility_witness:
  "get_or [(''license_id'', JStr ''GPL-3.0-only''), (''category'', JStr ''copyleft_strong'')]
      ''category'' (JStr ''permissive'') = JStr ''copyleft_strong''
   \<and> get_or [(''category'', JStr ''copyleft_strong'')] ''category'' (JStr ''permissive'')
      = JStr ''copyleft_strong''
   \<and> check_license_compatibility
       [(''license_id'', JStr ''GPL-3.0-only''), (''category'', JStr ''copyleft_strong'')]
       [(''category'', JStr ''copyleft_strong'')]
     = [(''static_linking'', JStr ''compatible''),
        (''dynamic_linking'', JStr ''compatible''),
        (''distribution'', JStr ''compatible'')]"
proof -
  have h1: "get_or [(''license_id'', JStr ''GPL-3.0-only''), (''category'', JStr ''copyleft_strong'')]
      ''category'' (JStr ''permissive'') = JStr ''copyleft_strong''"
    by (simp add: get_or_def)
  have h2: "get_or [(''category'', JStr ''copyleft_strong'')] ''category'' (JStr ''permissive'')
      = JStr ''copyleft_strong''"
    by (simp add: get_or_def)
  from same_category_compatibility [OF h1 h2] h1 h2 show ?thesis by simp
qed

section \<open>Properties of the validator\<close>

lemma validate_license_fields:
  "report_total_licenses (validate_license l r) = report_total_licenses r"
  "missing_category (validate_license l r) =
     missing_category r + (if missing ''category'' l then 1 else 0)"
  "missing_permissions (validate_license l r) =
     missing_permissions r + (if missing ''permissions'' l then 1 else 0)"
  "missing_obligations (validate_license l r) =
     missing_obligations r + (if missing ''obligations'' l then 1 else 0)"
  "missing_compatibility (validate_license l r) =
     missing_compatibility r + (if missing ''compatibility_rules'' l then 1 else 0)"
  "length (validation_errors (validate_license l r)) =
     length (validation_errors r)
       + (if missing ''category'' l then 1 else 0) + (if missing ''permissions'' l then 1 else 0)"
  by (simp_all add: validate_license_def Let_def missing_def)

lemma validate_loop_fields:
  "report_total_licenses (validate_loop ls r) = report_total_licenses r"
  "missing_category (validate_loop ls r) =
     missing_category r + length (filter (missing ''category'') ls)"
  "missing_permissions (validate_loop ls r) =
     missing_permissions r + length (filter (missing ''permissions'') ls)"
  "missing_obligations (validate_loop ls r) =
     missing_obligations r + length (filter (missing ''obligations'') ls)"
  "missing_compatibility (validate_loop ls r) =
     missing_compatibility r + length (filter (missing ''compatibility_rules'') ls)"
  "length (validation_errors (validate_loop ls r)) =
     length (validation_errors r)
       + length (filter (missing ''category'') ls) + length (filter (missing ''permissions'') ls)"
  by (induction ls arbitrary: r; simp add: validate_license_fields)+

text \<open>
  Claim C4 as stated fails: a record with a category and permissions whose obligations
  are empty is counted under \<^verbatim>\<open>missing_obligations\<close>, but no message is appended for
  it and the report stays valid.
\<close>

theorem missing_obligations_adds_no_message:
  "missing_obligations (validate_generated_data
      [[(''license_id'', JStr ''CC0-1.0''),
        (''category'', JStr ''public_domain''),
        (''permissions'', JObj [(''commercial_use'', JBool True)]),
        (''obligations'', JList []),
        (''compatibility_rules'', JObj [(''contamination_effect'', JStr ''none'')])]]) = 1
   \<and> validation_errors (validate_generated_data
      [[(''license_id'', JStr ''CC0-1.0''),
        (''category'', JStr ''public_domain''),
        (''permissions'', JObj [(''commercial_use'', JBool True)]),
        (''obligations'', JList []),
        (''compatibility_rules'', JObj [(''contamination_effect'', JStr ''none'')])]]) = []
   \<and> is_valid (validate_generated_data
      [[(''license_id'', JStr ''CC0-1.0''),
        (''category'', JStr ''public_domain''),
        (''permissions'', JObj [(''commercial_use'', JBool True)]),
        (''obligations'', JList []),
        (''compatibility_rules'', JObj [(''contamination_effect'', JStr ''none'')])]])"
  by (simp add: validate_generated_data_def Let_def validate_license_def get_def get_or_def
        report.defs validation_report.defs)

text \<open>
  Claim C4, amended. Each of the four counters is the number of records that miss the
  field. The error list has one message for each record that misses its category and
  one for each record that misses its permissions, and none for missing obligations or
  compatibility rules. \<^verbatim>\<open>is_valid\<close> holds exactly when the error list is empty. A
  record that misses its category and has permissions adds 1 to \<^verbatim>\<open>missing_category\<close>
  and appends exactly one message.
\<close>

theorem validator_counts_and_messages:
  "report_total_licenses (validate_generated_data ls) = length ls
   \<and> missing_category (validate_generated_data ls) = length (filter (missing ''category'') ls)
   \<and> missing_permissions (validate_generated_data ls) = length (filter (missing ''permissions'') ls)
   \<and> missing_obligations (validate_generated_data ls) = length (filter (missing ''obligations'') ls)
   \<and> missing_compatibility (validate_generated_data ls) =
       length (filter (missing ''compatibility_rules'') ls)
   \<and> length (validation_errors (validate_generated_data ls)) =
       missing_category (validate_generated_data ls) + missing_permissions (validate_generated_data ls)
   \<and> is_valid (validate_generated_data ls) = (validation_errors (validate_generated_data ls) = [])
   \<and> (missing ''category'' l \<and> \<not> missing ''permissions'' l \<longrightarrow>
        missing_category (validate_license l r) = missing_category r + 1
        \<and> validation_errors (validate_license l r) =
            validation_errors r @ [(get_or l ''license_id'' (JStr ''unknown''), '': Missing category'')])"
  by (simp add: validate_generated_data_def Let_def validate_loop_fields
        report.defs validation_report.defs)
     (simp add: validate_license_def Let_def missing_def)

theorem validator_counts_and_messages_witness:
  "missing ''category'' [(''license_id'', JStr ''MIT''), (''permissions'', JObj [(''commercial_use'', JBool True)])]
   \<and> \<not> missing ''permissions'' [(''license_id'', JStr ''MIT''), (''permissions'', JObj [(''commercial_use'', JBool True)])]
   \<and> missing_category (validate_generated_data
        [[(''license_id'', JStr ''MIT''), (''permissions'', JObj [(''commercial_use'', JBool True)])]]) = 1
   \<and> length (validation_errors (validate_generated_data
        [[(''license_id'', JStr ''MIT''), (''permissions'', JObj [(''commercial_use'', JBool True)])]])) = 1
   \<and> \<not> is_valid (validate_generated_data
        [[(''license_id'', JStr ''MIT''), (''permissions'', JObj [(''commercial_use'', JBool True)])]])"
proof -
  let ?l = "[(''license_id'', JStr ''MIT''), (''permissions'', JObj [(''commercial_use'', JBool True)])]"
  have m: "missing ''category'' ?l" "\<not> missing ''permissions'' ?l"
    by (simp_all add: missing_def get_def get_or_def)
  note t = validator_counts_and_messages [of "[?l]" ?l]
  have "missing_category (validate_generated_data [?l]) = length (filter (missing ''category'') [?l])"
    using t by blast
  with m have c: "missing_category (validate_generated_data [?l]) = 1" by simp
  have "missing_permissions (validate_generated_data [?l]) = length (filter (missing ''permissions'') [?l])"
    using t by blast
  with m have p: "missing_permissions (validate_generated_data [?l]) = 0" by simp
  have "length (validation_errors (validate_generated_data [?l])) =
      missing_category (validate_generated_data [?l]) + missing_permissions (validate_generated_data [?l])"
    using t by blast
  with c p have e: "length (validation_errors (validate_generated_data [?l])) = 1" by simp
  have "is_valid (validate_generated_data [?l]) = (validation_errors (validate_generated_data [?l]) = [])"
    using t by blast
  with e have v: "\<not> is_valid (validate_generated_data [?l])" by auto
  from m c e v show ?thesis by blast
qed

section \<open>Properties of the analysis with a backend\<close>

text \<open>The executable test for a JSON object agrees with its reading by positions.\<close>

lemma has_json_object_iff:
  "has_json_object s \<longleftrightarrow> (\<exists>i j. i < j \<and> j < length s \<and> s ! i = CHR ''{'' \<and> s ! j = CHR ''}'')"
proof (induction s)
  case Nil
  then show ?case by simp
next
  case (Cons c cs)
  show ?case
  proof
    assume "has_json_object (c # cs)"
    then consider "c = CHR ''{''" "CHR ''}'' \<in> set cs" | "has_json_object cs" by auto
    then show "\<exists>i j. i < j \<and> j < length (c # cs) \<and> (c # cs) ! i = CHR ''{'' \<and> (c # cs) ! j = CHR ''}''"
    proof cases
      case 1
      then obtain k where "k < length cs" "cs ! k = CHR ''}''" by (auto simp: in_set_conv_nth)
      with 1 have "0 < Suc k \<and> Suc k < length (c # cs) \<and> (c # cs) ! 0 = CHR ''{'' \<and> (c # cs) ! Suc k = CHR ''}''"
        by simp
      then show ?thesis by blast
    next
      case 2
      then obtain i j where "i < j" "j < length cs" "cs ! i = CHR ''{''" "cs ! j = CHR ''}''"
        using Cons.IH by blast
      then have "Suc i < Suc j \<and> Suc j < length (c # cs) \<and> (c # cs) ! Suc i = CHR ''{'' \<and> (c # cs) ! Suc j = CHR ''}''"
        by simp
      then show ?thesis by blast
    qed
  next
    assume "\<exists>i j. i < j \<and> j < length (c # cs) \<and> (c # cs) ! i = CHR ''{'' \<and> (c # cs) ! j = CHR ''}''"
    then obtain i j where ij: "i < j" "j < length (c # cs)" "(c # cs) ! i = CHR ''{''" "(c # cs) ! j = CHR ''}''"
      by blast
    from ij obtain j' where j': "j = Suc j'" by (cases j) auto
    show "has_json_object (c # cs)"
    proof (cases i)
      case 0
      with ij j' have "c = CHR ''{''" "CHR ''}'' \<in> set cs" by (auto simp: in_set_conv_nth)
      then show ?thesis by simp
    next
      case (Suc i')
      with ij j' have "i' < j' \<and> j' < length cs \<and> cs ! i' = CHR ''{'' \<and> cs ! j' = CHR ''}''" by simp
      then have "has_json_object cs" using Cons.IH by blast
      then show ?thesis by simp
    qed
  qed
qed

lemma str_rfind_char_nonneg: "0 \<le> str_rfind s [c] \<longleftrightarrow> c \<in> set s"
  by (induction s) (auto simp: Let_def)

lemma has_json_object_close: "has_json_object s \<Longrightarrow> CHR ''}'' \<in> set s"
  by (induction s) auto

lemma json_slice_found_iff:
  "(0 \<le> str_find s ''{'' \<and> str_find s ''{'' < str_rfind s ''}'' + 1) \<longleftrightarrow> has_json_object s"
proof (induction s)
  case Nil
  then show ?case by simp
next
  case (Cons c cs)
  show ?case
  proof (cases "c = CHR ''{''")
    case True
    then have "str_find (c # cs) ''{'' = 0" by simp
    moreover from True have "str_rfind (c # cs) ''}'' = (if 0 \<le> str_rfind cs ''}'' then str_rfind cs ''}'' + 1 else -1)"
      by (simp add: Let_def)
    ultimately have "(0 \<le> str_find (c # cs) ''{'' \<and> str_find (c # cs) ''{'' < str_rfind (c # cs) ''}'' + 1)
        \<longleftrightarrow> CHR ''}'' \<in> set cs"
      using str_rfind_char_nonneg [of cs "CHR ''}''"] by auto
    with True show ?thesis using has_json_object_close [of cs] by auto
  next
    case False
    then have f: "str_find (c # cs) ''{'' = (if str_find cs ''{'' < 0 then -1 else str_find cs ''{'' + 1)"
      by (simp add: Let_def)
    have r: "str_rfind (c # cs) ''}'' =
        (if 0 \<le> str_rfind cs ''}'' then str_rfind cs ''}'' + 1 else if c = CHR ''}'' then 0 else -1)"
      by (simp add: Let_def)
    from False have h: "has_json_object (c # cs) = has_json_object cs" by simp
    show ?thesis unfolding f r h using Cons.IH by auto
  qed
qed

text \<open>The fallback analysis raises nothing, and the record it returns has a category.\<close>

lemma fallback_total:
  "\<exists>d. get_fallback_analysis license_id = Inr d \<and> \<not> missing ''category'' d"
  by (auto simp add: fallback_simps missing_def Let_def)

text \<open>A reply whose JSON object parses is returned as it was parsed.\<close>

lemma analyze_license_parsed:
  assumes "query (analysis_prompt license_id license_text) = Inr response"
      and "has_json_object response"
      and "json_loads (slice response (str_find response ''{'') (str_rfind response ''}'' + 1)) = Inr analysis"
  shows "analyze_license (Some query) json_loads license_id license_text = Inr analysis"
  using assms json_slice_found_iff [of response]
  by (simp add: analyze_license_def analyze_body_def parse_response_def Let_def)

text \<open>
  The ways in which the analysis with a backend degrades to the fallback: the exceptions
  that are caught are those below \<^verbatim>\<open>Exception\<close>.
\<close>

lemma analyze_license_fallback:
  assumes "agent = None
     \<or> (\<exists>query. agent = Some query \<and>
           ((\<exists>e. query (analysis_prompt license_id license_text) = Inl e \<and> is_exception e)
            \<or> (\<exists>response. query (analysis_prompt license_id license_text) = Inr response \<and>
                  (\<not> has_json_object response
                   \<or> (\<exists>e. json_loads (slice response (str_find response ''{'')
                                         (str_rfind response ''}'' + 1)) = Inl e
                          \<and> is_exception e)))))"
  shows "analyze_license agent json_loads license_id license_text = get_fallback_analysis license_id"
proof -
  obtain d where d: "get_fallback_analysis license_id = Inr d" using fallback_total by blast
  from assms show ?thesis
  proof (elim disjE exE conjE)
    assume "agent = None"
    then show ?thesis by (simp add: analyze_license_def)
  next
    fix query e
    assume "agent = Some query" "query (analysis_prompt license_id license_text) = Inl e"
      "is_exception e"
    then show ?thesis by (simp add: analyze_license_def analyze_body_def)
  next
    fix query response
    assume "agent = Some query" "query (analysis_prompt license_id license_text) = Inr response"
      "\<not> has_json_object response"
    then show ?thesis using json_slice_found_iff [of response] d
      by (auto simp add: analyze_license_def analyze_body_def parse_response_def Let_def)
  next
    fix query response e
    assume a: "agent = Some query" "query (analysis_prompt license_id license_text) = Inr response"
      "json_loads (slice response (str_find response ''{'') (str_rfind response ''}'' + 1)) = Inl e"
      "is_exception e"
    show ?thesis
    proof (cases "has_json_object response")
      case True
      with a d show ?thesis using json_slice_found_iff [of response]
        by (cases e) (simp_all add: analyze_license_def analyze_body_def parse_response_def Let_def)
    next
      case False
      with a d show ?thesis using json_slice_found_iff [of response]
        by (auto simp add: analyze_license_def analyze_body_def parse_response_def Let_def)
    qed
  qed
qed

text \<open>
  What the analysis raises is an exception that is not below \<^verbatim>\<open>Exception\<close> and that the
  query of the backend or the parser has raised.
\<close>

lemma analyze_body_raises:
  assumes "analyze_body query json_loads license_id license_text = Inl e"
  shows "query (analysis_prompt license_id license_text) = Inl e
     \<or> (\<exists>response. query (analysis_prompt license_id license_text) = Inr response
            \<and> has_json_object response
            \<and> json_loads (slice response (str_find response ''{'')
                             (str_rfind response ''}'' + 1)) = Inl e)"
proof (cases "query (analysis_prompt license_id license_text)")
  case (Inl e')
  with assms show ?thesis by (simp add: analyze_body_def)
next
  case (Inr response)
  obtain d where d: "get_fallback_analysis license_id = Inr d" using fallback_total by blast
  show ?thesis
  proof (cases "has_json_object response")
    case False
    with Inr d assms json_slice_found_iff [of response] have False
      by (auto simp add: analyze_body_def parse_response_def Let_def)
    then show ?thesis by simp
  next
    case True
    with json_slice_found_iff [of response]
    have p: "parse_response json_loads license_id response =
        json_loads (slice response (str_find response ''{'') (str_rfind response ''}'' + 1))"
      by (simp add: parse_response_def Let_def)
    show ?thesis
    proof (cases "json_loads (slice response (str_find response ''{'') (str_rfind response ''}'' + 1))")
      case (Inl e')
      with Inr p d assms have "e' = e"
        by (cases e') (simp_all add: analyze_body_def)
      with Inl Inr True show ?thesis by simp
    next
      case (Inr analysis)
      with \<open>query (analysis_prompt license_id license_text) = Inr response\<close> p assms
      show ?thesis by (simp add: analyze_body_def)
    qed
  qed
qed

lemma analyze_license_raises:
  assumes "analyze_license agent json_loads license_id license_text = Inl e"
  shows "\<not> is_exception e
     \<and> (\<exists>query. agent = Some query
          \<and> (query (analysis_prompt license_id license_text) = Inl e
              \<or> (\<exists>response. query (analysis_prompt license_id license_text) = Inr response
                     \<and> has_json_object response
                     \<and> json_loads (slice response (str_find response ''{'')
                                      (str_rfind response ''}'' + 1)) = Inl e)))"
proof -
  obtain d where d: "get_fallback_analysis license_id = Inr d" using fallback_total by blast
  show ?thesis
  proof (cases agent)
    case None
    with d assms show ?thesis by (simp add: analyze_license_def)
  next
    case (Some query)
    show ?thesis
    proof (cases "analyze_body query json_loads license_id license_text")
      case (Inr analysis)
      with Some assms show ?thesis by (simp add: analyze_license_def)
    next
      case (Inl e')
      with Some d assms have e: "\<not> is_exception e'" "e' = e"
        by (auto simp add: analyze_license_def split: if_splits)
      from analyze_body_raises [OF Inl] e Some show ?thesis by simp
    qed
  qed
qed

text \<open>
  Claim C3 as stated fails: a backend that replies with the empty JSON object makes the
  analyzer return the empty dictionary, which has no category.
\<close>

theorem analysis_from_backend_without_category:
  "analyze_license (Some reply_empty_object) loads_empty_object ''MIT'' ''Permission is hereby granted''
     = Inr []
   \<and> missing ''category'' []"
  by (simp add: analyze_license_def analyze_body_def parse_response_def reply_empty_object_def
        loads_empty_object_def slice_def missing_def get_def get_or_def Let_def)

text \<open>
  Claim C3, amended. A record produced by the fallback analysis has a category that is
  present and not empty. A record produced from the reply of the backend is the JSON
  object of the reply as it was parsed, so it has a category only when the reply gives
  one.
\<close>

theorem classifier_category:
  "(\<exists>d. get_fallback_analysis license_id = Inr d \<and> \<not> missing ''category'' d)
   \<and> (query (analysis_prompt license_id license_text) = Inr response
       \<and> has_json_object response
       \<and> json_loads (slice response (str_find response ''{'') (str_rfind response ''}'' + 1)) = Inr analysis
      \<longrightarrow> analyze_license (Some query) json_loads license_id license_text = Inr analysis)"
  using fallback_total [of license_id]
    analyze_license_parsed [of query license_id license_text response json_loads analysis]
  by blast

theorem classifier_category_witness:
  "reply_empty_object (analysis_prompt ''Apache-2.0'' ''Apache License'') = Inr ''{}''
   \<and> has_json_object ''{}''
   \<and> loads_empty_object (slice ''{}'' (str_find ''{}'' ''{'') (str_rfind ''{}'' ''}'' + 1)) = Inr []
   \<and> analyze_license (Some reply_empty_object) loads_empty_object ''Apache-2.0'' ''Apache License'' = Inr []"
proof -
  have h: "reply_empty_object (analysis_prompt ''Apache-2.0'' ''Apache License'') = Inr ''{}''
      \<and> has_json_object ''{}''
      \<and> loads_empty_object (slice ''{}'' (str_find ''{}'' ''{'') (str_rfind ''{}'' ''}'' + 1)) = Inr []"
    by (simp add: reply_empty_object_def loads_empty_object_def slice_def Let_def)
  from h classifier_category
    [of "''Apache-2.0''" reply_empty_object "''Apache License''" "''{}''" loads_empty_object "[]"]
  show ?thesis by blast
qed

text \<open>
  Claim C8 as stated fails: when the query of the backend is cancelled, the exception is
  not below \<^verbatim>\<open>Exception\<close>, the handler does not catch it, and the analysis raises it to
  its caller.
\<close>

theorem analyze_license_propagates_cancellation:
  "analyze_license (Some query_cancelled) loads_empty_object ''MIT'' ''Permission is hereby granted''
     = Inl CancelledError"
  by (simp add: analyze_license_def analyze_body_def query_cancelled_def)

text \<open>
  Claim C8, amended. The analysis of a license raises no exception below \<^verbatim>\<open>Exception\<close>
  to its caller. When the backend is absent, when its query raises such an exception,
  when its reply holds no opening brace before a closing brace, or when parsing the
  slice between the first opening and the last closing brace raises such an exception,
  the result is the fallback analysis of the id, which is returned. The analysis raises
  only an exception that is not below \<^verbatim>\<open>Exception\<close> and that the query or the parser
  has raised.
\<close>

theorem analyze_license_degrades_to_fallback:
  "(agent = None
       \<or> (\<exists>query. agent = Some query \<and>
             ((\<exists>e. query (analysis_prompt license_id license_text) = Inl e \<and> is_exception e)
              \<or> (\<exists>response. query (analysis_prompt license_id license_text) = Inr response \<and>
                    (\<not> has_json_object response
                     \<or> (\<exists>e. json_loads (slice response (str_find response ''{'')
                                           (str_rfind response ''}'' + 1)) = Inl e
                            \<and> is_exception e)))))
      \<longrightarrow> analyze_license agent json_loads license_id license_text = get_fallback_analysis license_id
          \<and> (\<exists>d. get_fallback_analysis license_id = Inr d))
   \<and> (analyze_license agent json_loads license_id license_text = Inl e
      \<longrightarrow> \<not> is_exception e
          \<and> (\<exists>query. agent = Some query
               \<and> (query (analysis_prompt license_id license_text) = Inl e
                   \<or> (\<exists>response. query (analysis_prompt license_id license_text) = Inr response
                          \<and> has_json_object response
                          \<and> json_loads (slice response (str_find response ''{'')
                                           (str_rfind response ''}'' + 1)) = Inl e))))"
proof (intro conjI impI)
  assume "agent = None
       \<or> (\<exists>query. agent = Some query \<and>
             ((\<exists>e. query (analysis_prompt license_id license_text) = Inl e \<and> is_exception e)
              \<or> (\<exists>response. query (analysis_prompt license_id license_text) = Inr response \<and>
                    (\<not> has_json_object response
                     \<or> (\<exists>e. json_loads (slice response (str_find response ''{'')
                                           (str_rfind response ''}'' + 1)) = Inl e
                            \<and> is_exception e)))))"
  then show "analyze_license agent json_loads license_id license_text = get_fallback_analysis license_id"
    by (rule analyze_license_fallback)
next
  show "\<exists>d. get_fallback_analysis license_id = Inr d"
    using fallback_total [of license_id] by blast
next
  assume r: "analyze_license agent json_loads license_id license_text = Inl e"
  from analyze_license_raises [OF r] show "\<not> is_exception e" by (rule conjunct1)
  from analyze_license_raises [OF r]
  show "\<exists>query. agent = Some query
               \<and> (query (analysis_prompt license_id license_text) = Inl e
                   \<or> (\<exists>response. query (analysis_prompt license_id license_text) = Inr response
                          \<and> has_json_object response
                          \<and> json_loads (slice response (str_find response ''{'')
                                           (str_rfind response ''}'' + 1)) = Inl e))"
    by (rule conjunct2)
qed

theorem analyze_license_degrades_to_fallback_witness:
  "reply_plain_text (analysis_prompt ''MIT-Fake'' []) = Inr ''I cannot analyze this license.''
   \<and> \<not> has_json_object ''I cannot analyze this license.''
   \<and> analyze_license (Some reply_plain_text) loads_empty_object ''MIT-Fake'' []
       = get_fallback_analysis ''MIT-Fake''
   \<and> analyze_license (Some query_interrupted) loads_empty_object ''MIT-Fake'' [] = Inl KeyboardInterrupt
   \<and> \<not> is_exception KeyboardInterrupt
   \<and> query_interrupted (analysis_prompt ''MIT-Fake'' []) = Inl KeyboardInterrupt"
proof -
  have h: "reply_plain_text (analysis_prompt ''MIT-Fake'' []) = Inr ''I cannot analyze this license.''"
    by (simp add: reply_plain_text_def)
  have n: "\<not> has_json_object ''I cannot analyze this license.''"
    by simp
  from h n analyze_license_degrades_to_fallback
    [of "Some reply_plain_text" "''MIT-Fake''" "[]" loads_empty_object]
  have f: "analyze_license (Some reply_plain_text) loads_empty_object ''MIT-Fake'' []
       = get_fallback_analysis ''MIT-Fake''"
    by blast
  have q: "query_interrupted (analysis_prompt ''MIT-Fake'' []) = Inl KeyboardInterrupt"
    by (simp add: query_interrupted_def)
  have r: "analyze_license (Some query_interrupted) loads_empty_object ''MIT-Fake'' [] = Inl KeyboardInterrupt"
    by (simp add: analyze_license_def analyze_body_def query_interrupted_def)
  from r analyze_license_degrades_to_fallback
    [of "Some query_interrupted" "''MIT-Fake''" "[]" loads_empty_object KeyboardInterrupt]
  have i: "\<not> is_exception KeyboardInterrupt" by blast
  from h n f r i q show ?thesis by blast
qed

section \<open>Properties of the tables\<close>

text \<open>Item assignment on a dictionary, read as a map.\<close>

lemma map_of_setitem: "map_of (setitem d k v) = (map_of d)(k \<mapsto> v)"
  by (induction d) auto

lemma keys_setitem: "fst ` set (setitem d k v) = insert k (fst ` set d)"
proof (induction d)
  case Nil
  then show ?case by simp
next
  case (Cons p d)
  obtain k' v' where p: "p = (k', v')" by (cases p)
  show ?case
  proof (cases "k' = k")
    case True
    with p show ?thesis by simp
  next
    case False
    with p Cons.IH show ?thesis by (simp add: insert_commute)
  qed
qed

lemma distinct_setitem: "distinct (map fst d) \<Longrightarrow> distinct (map fst (setitem d k v))"
  by (induction d) (auto simp: keys_setitem)

lemma stored_keys_Cons:
  "stored_keys (l # ls) = (case stored_key l of None \<Rightarrow> stored_keys ls | Some k \<Rightarrow> insert k (stored_keys ls))"
  by (simp add: stored_keys_def map_filter_simps split: option.splits)

lemma stored_keys_Nil: "stored_keys [] = {}"
  by (simp add: stored_keys_def map_filter_simps)

lemma last_with_None_iff: "last_with k ls = None \<longleftrightarrow> k \<notin> stored_keys ls"
  by (induction ls) (auto simp: stored_keys_Cons stored_keys_Nil split: option.splits)

lemma check_sym: "check_license_compatibility l1 l2 = check_license_compatibility l2 l1"
  by (auto simp add: check_license_compatibility_def Let_def)

lemma matrix_row_Inr:
  "matrix_row l1 ls row = Inr row' \<Longrightarrow>
   map_of row' k = (case last_with k ls of
                      Some l2 \<Rightarrow> Some (check_license_compatibility l1 l2)
                    | None \<Rightarrow> map_of row k)"
proof (induction ls arbitrary: row)
  case Nil
  then show ?case by simp
next
  case (Cons l2 rest)
  show ?case
  proof (cases "truthy (get l2 ''license_id'')")
    case False
    with Cons.prems have "matrix_row l1 rest row = Inr row'" by simp
    from Cons.IH [OF this] False show ?thesis
      by (simp add: stored_key_def split: option.splits)
  next
    case True
    with Cons.prems obtain k2 where k2: "hash_key (get l2 ''license_id'') = Inr k2"
      and r: "matrix_row l1 rest (setitem row k2 (check_license_compatibility l1 l2)) = Inr row'"
      by (auto simp: Let_def split: sum.splits)
    from True k2 have sk: "stored_key l2 = Some k2" by (simp add: stored_key_def)
    from Cons.IH [OF r] sk show ?thesis
      by (auto simp: map_of_setitem split: option.splits)
  qed
qed

lemma matrix_row_keys:
  "matrix_row l1 ls row = Inr row' \<Longrightarrow> fst ` set row' = fst ` set row \<union> stored_keys ls"
proof (induction ls arbitrary: row)
  case Nil
  then show ?case by (simp add: stored_keys_Nil)
next
  case (Cons l2 rest)
  show ?case
  proof (cases "truthy (get l2 ''license_id'')")
    case False
    with Cons.prems have "matrix_row l1 rest row = Inr row'" by simp
    from Cons.IH [OF this] False show ?thesis
      by (simp add: stored_key_def stored_keys_Cons)
  next
    case True
    with Cons.prems obtain k2 where k2: "hash_key (get l2 ''license_id'') = Inr k2"
      and r: "matrix_row l1 rest (setitem row k2 (check_license_compatibility l1 l2)) = Inr row'"
      by (auto simp: Let_def split: sum.splits)
    from True k2 have sk: "stored_key l2 = Some k2" by (simp add: stored_key_def)
    from Cons.IH [OF r] sk show ?thesis
      by (auto simp: keys_setitem stored_keys_Cons)
  qed
qed

lemma matrix_row_distinct:
  "matrix_row l1 ls row = Inr row' \<Longrightarrow> distinct (map fst row) \<Longrightarrow> distinct (map fst row')"
proof (induction ls arbitrary: row)
  case Nil
  then show ?case by simp
next
  case (Cons l2 rest)
  show ?case
  proof (cases "truthy (get l2 ''license_id'')")
    case False
    with Cons.prems have "matrix_row l1 rest row = Inr row'" by simp
    from Cons.IH [OF this] Cons.prems show ?thesis by simp
  next
    case True
    with Cons.prems obtain k2 where k2: "hash_key (get l2 ''license_id'') = Inr k2"
      and r: "matrix_row l1 rest (setitem row k2 (check_license_compatibility l1 l2)) = Inr row'"
      by (auto simp: Let_def split: sum.splits)
    from Cons.IH [OF r] Cons.prems show ?thesis by (simp add: distinct_setitem)
  qed
qed

lemma matrix_row_total:
  "\<forall>l \<in> set ls. well_formed l \<Longrightarrow> \<exists>row'. matrix_row l1 ls row = Inr row'"
proof (induction ls arbitrary: row)
  case Nil
  then show ?case by simp
next
  case (Cons l2 rest)
  then have wf: "well_formed l2" and rest: "\<forall>l \<in> set rest. well_formed l" by auto
  show ?case
  proof (cases "truthy (get l2 ''license_id'')")
    case False
    with Cons.IH [OF rest] show ?thesis by simp
  next
    case True
    with wf obtain k2 where "hash_key (get l2 ''license_id'') = Inr k2"
      by (auto simp: well_formed_def stored_key_def split: sum.splits)
    with True Cons.IH [OF rest] show ?thesis by (simp add: Let_def)
  qed
qed

text \<open>The verdict depends on the two categories only, and not on their order.\<close>

lemma check_depends_on_categories:
  assumes "(get_or l1 ''category'' (JStr ''permissive'') = get_or l1' ''category'' (JStr ''permissive'')
            \<and> get_or l2 ''category'' (JStr ''permissive'') = get_or l2' ''category'' (JStr ''permissive''))
         \<or> (get_or l1 ''category'' (JStr ''permissive'') = get_or l2' ''category'' (JStr ''permissive'')
            \<and> get_or l2 ''category'' (JStr ''permissive'') = get_or l1' ''category'' (JStr ''permissive''))"
  shows "check_license_compatibility l1 l2 = check_license_compatibility l1' l2'"
  using assms
proof (elim disjE conjE)
  assume "get_or l1 ''category'' (JStr ''permissive'') = get_or l1' ''category'' (JStr ''permissive'')"
     and "get_or l2 ''category'' (JStr ''permissive'') = get_or l2' ''category'' (JStr ''permissive'')"
  then show ?thesis by (simp add: check_license_compatibility_def)
next
  assume "get_or l1 ''category'' (JStr ''permissive'') = get_or l2' ''category'' (JStr ''permissive'')"
     and "get_or l2 ''category'' (JStr ''permissive'') = get_or l1' ''category'' (JStr ''permissive'')"
  then have "check_license_compatibility l1 l2 = check_license_compatibility l2' l1'"
    by (simp add: check_license_compatibility_def)
  then show ?thesis by (simp add: check_sym [of l2' l1'])
qed

lemma matrix_rows_Inr:
  "matrix_rows rem licenses tbl = Inr tbl' \<Longrightarrow>
   (case last_with k rem of
      Some l1 \<Rightarrow> \<exists>row. matrix_row l1 licenses [] = Inr row \<and> map_of tbl' k = Some row
    | None \<Rightarrow> map_of tbl' k = map_of tbl k)"
proof (induction rem arbitrary: tbl)
  case Nil
  then show ?case by simp
next
  case (Cons l1 rest)
  show ?case
  proof (cases "truthy (get l1 ''license_id'')")
    case False
    with Cons.prems have "matrix_rows rest licenses tbl = Inr tbl'" by simp
    from Cons.IH [OF this] False show ?thesis
      by (simp add: stored_key_def split: option.splits)
  next
    case True
    with Cons.prems obtain k1 row where k1: "hash_key (get l1 ''license_id'') = Inr k1"
      and row: "matrix_row l1 licenses [] = Inr row"
      and r: "matrix_rows rest licenses (setitem tbl k1 row) = Inr tbl'"
      by (auto simp: Let_def split: sum.splits)
    from True k1 have sk: "stored_key l1 = Some k1" by (simp add: stored_key_def)
    from Cons.IH [OF r] sk row show ?thesis
      by (auto simp: map_of_setitem split: option.splits)
  qed
qed

lemma matrix_rows_keys:
  "matrix_rows rem licenses tbl = Inr tbl' \<Longrightarrow>
   fst ` set tbl' = fst ` set tbl \<union> stored_keys rem
   \<and> (distinct (map fst tbl) \<longrightarrow> distinct (map fst tbl'))"
proof (induction rem arbitrary: tbl)
  case Nil
  then show ?case by (simp add: stored_keys_Nil)
next
  case (Cons l1 rest)
  show ?case
  proof (cases "truthy (get l1 ''license_id'')")
    case False
    with Cons.prems have "matrix_rows rest licenses tbl = Inr tbl'" by simp
    from Cons.IH [OF this] False show ?thesis
      by (simp add: stored_key_def stored_keys_Cons)
  next
    case True
    with Cons.prems obtain k1 row where k1: "hash_key (get l1 ''license_id'') = Inr k1"
      and r: "matrix_rows rest licenses (setitem tbl k1 row) = Inr tbl'"
      by (auto simp: Let_def split: sum.splits)
    from True k1 have sk: "stored_key l1 = Some k1" by (simp add: stored_key_def)
    from Cons.IH [OF r] sk show ?thesis
      by (auto simp: keys_setitem stored_keys_Cons distinct_setitem)
  qed
qed

lemma matrix_rows_total:
  "\<forall>l \<in> set rem. well_formed l \<Longrightarrow> \<forall>l \<in> set licenses. well_formed l \<Longrightarrow>
   \<exists>tbl'. matrix_rows rem licenses tbl = Inr tbl'"
proof (induction rem arbitrary: tbl)
  case Nil
  then show ?case by simp
next
  case (Cons l1 rest)
  then have wf: "well_formed l1" and rest: "\<forall>l \<in> set rest. well_formed l" by auto
  show ?case
  proof (cases "truthy (get l1 ''license_id'')")
    case False
    with Cons.IH [OF rest Cons.prems(2)] show ?thesis by simp
  next
    case True
    with wf obtain k1 where k1: "hash_key (get l1 ''license_id'') = Inr k1"
      by (auto simp: well_formed_def stored_key_def split: sum.splits)
    obtain row where row: "matrix_row l1 licenses [] = Inr row"
      using matrix_row_total [OF Cons.prems(2)] by blast
    from True k1 row Cons.IH [OF rest Cons.prems(2)] show ?thesis by (simp add: Let_def)
  qed
qed

text \<open>
  Claim C6. In the matrix built from any list of classified licenses, the entry of
  \<open>A\<close> for \<open>B\<close> and the entry of \<open>B\<close> for \<open>A\<close> exist and are equal, for all ids
  \<open>A\<close> and \<open>B\<close> that have a row in the matrix: the verdict for two licenses depends only
  on the unordered pair of their categories.
\<close>

theorem matrix_symmetric:
  assumes m: "generate_compatibility_matrix now licenses = Inr m"
      and a: "map_of (matrix_compatibility m) A = Some rowA"
      and b: "map_of (matrix_compatibility m) B = Some rowB"
  shows "map_of rowA B = map_of rowB A \<and> map_of rowA B \<noteq> None
       \<and> check_license_compatibility l1 l2 = check_license_compatibility l2 l1"
proof -
  from m have rows: "matrix_rows licenses licenses [] = Inr (matrix_compatibility m)"
    by (auto simp: generate_compatibility_matrix_def split: sum.splits)
  from matrix_rows_Inr [OF rows, of A] a obtain lA where lA: "last_with A licenses = Some lA"
    and rA: "matrix_row lA licenses [] = Inr rowA"
    by (cases "last_with A licenses") auto
  from matrix_rows_Inr [OF rows, of B] b obtain lB where lB: "last_with B licenses = Some lB"
    and rB: "matrix_row lB licenses [] = Inr rowB"
    by (cases "last_with B licenses") auto
  from matrix_row_Inr [OF rA, of B] lB
  have ab: "map_of rowA B = Some (check_license_compatibility lA lB)" by simp
  from matrix_row_Inr [OF rB, of A] lA
  have ba: "map_of rowB A = Some (check_license_compatibility lB lA)" by simp
  from ab ba check_sym [of lA lB] check_sym [of l1 l2] show ?thesis by simp
qed

lemmas matrix_eval = generate_compatibility_matrix_def sample_licenses_def
  check_license_compatibility_def get_def get_or_def Let_def

theorem matrix_symmetric_witness:
  "\<exists>m rowA rowB.
     generate_compatibility_matrix ''2026-01-01'' sample_licenses = Inr m
   \<and> map_of (matrix_compatibility m) (JStr ''MIT'') = Some rowA
   \<and> map_of (matrix_compatibility m) (JStr ''GPL-3.0-only'') = Some rowB
   \<and> map_of rowA (JStr ''GPL-3.0-only'') = map_of rowB (JStr ''MIT'')
   \<and> map_of rowB (JStr ''MIT'') =
       Some [(''static_linking'', JStr ''incompatible''),
             (''dynamic_linking'', JStr ''review_required''),
             (''distribution'', JStr ''incompatible'')]"
proof -
  let ?cc = "[(''static_linking'', JStr ''compatible''),
              (''dynamic_linking'', JStr ''compatible''),
              (''distribution'', JStr ''compatible'')]"
  let ?ii = "[(''static_linking'', JStr ''incompatible''),
              (''dynamic_linking'', JStr ''review_required''),
              (''distribution'', JStr ''incompatible'')]"
  let ?rowA = "[(JStr ''MIT'', ?cc), (JStr ''GPL-3.0-only'', ?ii)]"
  let ?rowB = "[(JStr ''MIT'', ?ii), (JStr ''GPL-3.0-only'', ?cc)]"
  let ?m = "\<lparr>matrix_version = ''1.0'', matrix_generated = ''2026-01-01'',
             matrix_total_licenses = 3,
             matrix_compatibility = [(JStr ''MIT'', ?rowA), (JStr ''GPL-3.0-only'', ?rowB)]\<rparr>"
  have g: "generate_compatibility_matrix ''2026-01-01'' sample_licenses = Inr ?m"
    by (simp add: matrix_eval)
  have a: "map_of (matrix_compatibility ?m) (JStr ''MIT'') = Some ?rowA" by simp
  have b: "map_of (matrix_compatibility ?m) (JStr ''GPL-3.0-only'') = Some ?rowB" by simp
  have v: "map_of ?rowB (JStr ''MIT'') = Some ?ii" by simp
  from matrix_symmetric [OF g a b] have s: "map_of ?rowA (JStr ''GPL-3.0-only'') = map_of ?rowB (JStr ''MIT'')"
    by (rule conjunct1)
  from g a b s v show ?thesis by blast
qed

lemma get_in_total:
  "is_dict_or_absent (map_of d k1) \<Longrightarrow> \<exists>v. get_in d k1 k2 dflt = Inr v"
  by (cases "map_of d k1" rule: is_dict_or_absent.cases) (auto simp: get_in_def get_or_def)

lemma obligation_entry_total:
  assumes "is_dict_or_absent (map_of l ''conditions'')"
  shows "\<exists>entry. obligation_entry l = Inr entry"
proof -
  from get_in_total [OF assms] obtain a where "get_in l ''conditions'' ''include_copyright'' (JBool False) = Inr a"
    by blast
  moreover from get_in_total [OF assms] obtain s where "get_in l ''conditions'' ''disclose_source'' (JBool False) = Inr s"
    by blast
  moreover from get_in_total [OF assms] obtain n where "get_in l ''conditions'' ''include_notice'' (JBool False) = Inr n"
    by blast
  ultimately show ?thesis by (simp add: obligation_entry_def)
qed

lemma master_db_entry_total:
  assumes "is_dict_or_absent (map_of l ''spdx_data'')" and "hash_key license_id = Inr k"
  shows "\<exists>entry. master_db_entry ob l license_id = Inr entry"
proof -
  from get_in_total [OF assms(1)] obtain a where "get_in l ''spdx_data'' ''isOsiApproved'' (JBool False) = Inr a"
    by blast
  moreover from get_in_total [OF assms(1)] obtain s where "get_in l ''spdx_data'' ''isFsfLibre'' (JBool False) = Inr s"
    by blast
  moreover from get_in_total [OF assms(1)] obtain n where "get_in l ''spdx_data'' ''isDeprecatedLicenseId'' (JBool False) = Inr n"
    by blast
  ultimately show ?thesis using assms(2) by (simp add: master_db_entry_def table_get_def)
qed

lemma obligation_loop_keys:
  "obligation_loop ls tbl = Inr tbl' \<Longrightarrow>
   fst ` set tbl' = fst ` set tbl \<union> stored_keys ls
   \<and> (distinct (map fst tbl) \<longrightarrow> distinct (map fst tbl'))"
proof (induction ls arbitrary: tbl)
  case Nil
  then show ?case by (simp add: stored_keys_Nil)
next
  case (Cons l rest)
  show ?case
  proof (cases "truthy (get l ''license_id'')")
    case False
    with Cons.prems have "obligation_loop rest tbl = Inr tbl'" by simp
    from Cons.IH [OF this] False show ?thesis
      by (simp add: stored_key_def stored_keys_Cons)
  next
    case True
    with Cons.prems obtain k entry where k: "hash_key (get l ''license_id'') = Inr k"
      and r: "obligation_loop rest (setitem tbl k entry) = Inr tbl'"
      by (auto simp: Let_def split: sum.splits)
    from True k have sk: "stored_key l = Some k" by (simp add: stored_key_def)
    from Cons.IH [OF r] sk show ?thesis
      by (auto simp: keys_setitem stored_keys_Cons distinct_setitem)
  qed
qed

lemma obligation_loop_total:
  "\<forall>l \<in> set ls. well_formed l \<Longrightarrow> \<exists>tbl'. obligation_loop ls tbl = Inr tbl'"
proof (induction ls arbitrary: tbl)
  case Nil
  then show ?case by simp
next
  case (Cons l rest)
  then have wf: "well_formed l" and rest: "\<forall>l \<in> set rest. well_formed l" by auto
  show ?case
  proof (cases "truthy (get l ''license_id'')")
    case False
    with Cons.IH [OF rest] show ?thesis by simp
  next
    case True
    with wf obtain k where k: "hash_key (get l ''license_id'') = Inr k"
      by (auto simp: well_formed_def stored_key_def split: sum.splits)
    from True wf have "is_dict_or_absent (map_of l ''conditions'')" by (simp add: well_formed_def)
    from obligation_entry_total [OF this] obtain entry where "obligation_entry l = Inr entry" by blast
    with True k Cons.IH [OF rest] show ?thesis by (simp add: Let_def)
  qed
qed

lemma master_loop_keys:
  "master_loop ob ls tbl = Inr tbl' \<Longrightarrow>
   fst ` set tbl' = fst ` set tbl \<union> stored_keys ls
   \<and> (distinct (map fst tbl) \<longrightarrow> distinct (map fst tbl'))"
proof (induction ls arbitrary: tbl)
  case Nil
  then show ?case by (simp add: stored_keys_Nil)
next
  case (Cons l rest)
  show ?case
  proof (cases "truthy (get l ''license_id'')")
    case False
    with Cons.prems have "master_loop ob rest tbl = Inr tbl'" by simp
    from Cons.IH [OF this] False show ?thesis
      by (simp add: stored_key_def stored_keys_Cons)
  next
    case True
    with Cons.prems obtain k entry where k: "hash_key (get l ''license_id'') = Inr k"
      and r: "master_loop ob rest (setitem tbl k entry) = Inr tbl'"
      by (auto simp: Let_def split: sum.splits)
    from True k have sk: "stored_key l = Some k" by (simp add: stored_key_def)
    from Cons.IH [OF r] sk show ?thesis
      by (auto simp: keys_setitem stored_keys_Cons distinct_setitem)
  qed
qed

lemma master_loop_total:
  "\<forall>l \<in> set ls. well_formed l \<Longrightarrow> \<exists>tbl'. master_loop ob ls tbl = Inr tbl'"
proof (induction ls arbitrary: tbl)
  case Nil
  then show ?case by simp
next
  case (Cons l rest)
  then have wf: "well_formed l" and rest: "\<forall>l \<in> set rest. well_formed l" by auto
  show ?case
  proof (cases "truthy (get l ''license_id'')")
    case False
    with Cons.IH [OF rest] show ?thesis by simp
  next
    case True
    with wf obtain k where k: "hash_key (get l ''license_id'') = Inr k"
      by (auto simp: well_formed_def stored_key_def split: sum.splits)
    from True wf have "is_dict_or_absent (map_of l ''spdx_data'')" by (simp add: well_formed_def)
    from master_db_entry_total [OF this k] obtain entry
      where "master_db_entry ob l (get l ''license_id'') = Inr entry" by blast
    with True k Cons.IH [OF rest] show ?thesis by (simp add: Let_def)
  qed
qed

lemma stored_key_has_id:
  "well_formed l \<Longrightarrow> (stored_key l \<noteq> None) = truthy (get l ''license_id'')"
proof (cases "truthy (get l ''license_id'')")
  case True
  assume "well_formed l"
  with True show ?thesis by (simp add: well_formed_def)
next
  case False
  then have "stored_key l = None" by (simp add: stored_key_def)
  with False show ?thesis by simp
qed

lemma matrix_rows_hashable:
  "matrix_rows rem licenses tbl = Inr tbl' \<Longrightarrow>
   \<forall>l \<in> set rem. (stored_key l \<noteq> None) = truthy (get l ''license_id'')"
proof (induction rem arbitrary: tbl)
  case Nil
  then show ?case by simp
next
  case (Cons l1 rest)
  show ?case
  proof (cases "truthy (get l1 ''license_id'')")
    case False
    with Cons.prems have "matrix_rows rest licenses tbl = Inr tbl'" by simp
    from Cons.IH [OF this] False show ?thesis by (simp add: stored_key_def)
  next
    case True
    with Cons.prems obtain k1 row where k1: "hash_key (get l1 ''license_id'') = Inr k1"
      and r: "matrix_rows rest licenses (setitem tbl k1 row) = Inr tbl'"
      by (auto simp: Let_def split: sum.splits)
    from True k1 have "stored_key l1 = Some k1" by (simp add: stored_key_def)
    with Cons.IH [OF r] True show ?thesis by simp
  qed
qed

lemma obligation_loop_hashable:
  "obligation_loop ls tbl = Inr tbl' \<Longrightarrow>
   \<forall>l \<in> set ls. (stored_key l \<noteq> None) = truthy (get l ''license_id'')"
proof (induction ls arbitrary: tbl)
  case Nil
  then show ?case by simp
next
  case (Cons l rest)
  show ?case
  proof (cases "truthy (get l ''license_id'')")
    case False
    with Cons.prems have "obligation_loop rest tbl = Inr tbl'" by simp
    from Cons.IH [OF this] False show ?thesis by (simp add: stored_key_def)
  next
    case True
    with Cons.prems obtain k entry where k: "hash_key (get l ''license_id'') = Inr k"
      and r: "obligation_loop rest (setitem tbl k entry) = Inr tbl'"
      by (auto simp: Let_def split: sum.splits)
    from True k have "stored_key l = Some k" by (simp add: stored_key_def)
    with Cons.IH [OF r] True show ?thesis by simp
  qed
qed

lemma master_loop_hashable:
  "master_loop ob ls tbl = Inr tbl' \<Longrightarrow>
   \<forall>l \<in> set ls. (stored_key l \<noteq> None) = truthy (get l ''license_id'')"
proof (induction ls arbitrary: tbl)
  case Nil
  then show ?case by simp
next
  case (Cons l rest)
  show ?case
  proof (cases "truthy (get l ''license_id'')")
    case False
    with Cons.prems have "master_loop ob rest tbl = Inr tbl'" by simp
    from Cons.IH [OF this] False show ?thesis by (simp add: stored_key_def)
  next
    case True
    with Cons.prems obtain k entry where k: "hash_key (get l ''license_id'') = Inr k"
      and r: "master_loop ob rest (setitem tbl k entry) = Inr tbl'"
      by (auto simp: Let_def split: sum.splits)
    from True k have "stored_key l = Some k" by (simp add: stored_key_def)
    with Cons.IH [OF r] True show ?thesis by simp
  qed
qed

lemma matrix_entries:
  assumes "generate_compatibility_matrix now licenses = Inr m"
  shows "matrix_total_licenses m = length licenses
       \<and> fst ` set (matrix_compatibility m) = stored_keys licenses
       \<and> distinct (map fst (matrix_compatibility m))
       \<and> (\<forall>l \<in> set licenses. (stored_key l \<noteq> None) = truthy (get l ''license_id''))"
proof -
  from assms obtain tbl where t: "matrix_rows licenses licenses [] = Inr tbl"
    and m: "m = \<lparr>matrix_version = ''1.0'', matrix_generated = now,
                 matrix_total_licenses = length licenses, matrix_compatibility = tbl\<rparr>"
    by (auto simp: generate_compatibility_matrix_def split: sum.splits)
  from matrix_rows_keys [OF t] matrix_rows_hashable [OF t] m show ?thesis by simp
qed

lemma obligation_entries:
  assumes "generate_obligation_database now licenses = Inr ob"
  shows "fst ` set (obligations_licenses ob) = stored_keys licenses
       \<and> distinct (map fst (obligations_licenses ob))
       \<and> (\<forall>l \<in> set licenses. (stored_key l \<noteq> None) = truthy (get l ''license_id''))"
proof -
  from assms obtain tbl where t: "obligation_loop licenses [] = Inr tbl"
    and m: "ob = \<lparr>obligations_version = ''1.0'', obligations_generated = now,
                  obligations_licenses = tbl\<rparr>"
    by (auto simp: generate_obligation_database_def split: sum.splits)
  from obligation_loop_keys [OF t] obligation_loop_hashable [OF t] m show ?thesis by simp
qed

lemma master_entries:
  assumes "generate_master_database now licenses m ob = Inr db"
  shows "master_total_licenses db = length licenses
       \<and> fst ` set (master_licenses db) = stored_keys licenses
       \<and> distinct (map fst (master_licenses db))
       \<and> (\<forall>l \<in> set licenses. (stored_key l \<noteq> None) = truthy (get l ''license_id''))"
proof -
  from assms obtain tbl where t: "master_loop ob licenses [] = Inr tbl"
    and m: "db = \<lparr>master_version = ''1.0'', master_generated = now,
                  master_total_licenses = length licenses, master_licenses = tbl\<rparr>"
    by (auto simp: generate_master_database_def split: sum.splits)
  from master_loop_keys [OF t] master_loop_hashable [OF t] m show ?thesis by simp
qed

lemma generators_total:
  assumes wf: "\<forall>l \<in> set licenses. well_formed l"
  shows "\<exists>m ob db.
      generate_compatibility_matrix now licenses = Inr m
    \<and> generate_obligation_database now licenses = Inr ob
    \<and> generate_master_database now licenses m ob = Inr db"
proof -
  obtain tm where tm: "matrix_rows licenses licenses [] = Inr tm"
    using matrix_rows_total [OF wf wf] by blast
  obtain tob where tob: "obligation_loop licenses [] = Inr tob"
    using obligation_loop_total [OF wf] by blast
  let ?ob = "\<lparr>obligations_version = ''1.0'', obligations_generated = now, obligations_licenses = tob\<rparr>"
  obtain tdb where tdb: "master_loop ?ob licenses [] = Inr tdb"
    using master_loop_total [OF wf] by blast
  from tm tob tdb show ?thesis
    by (simp add: generate_compatibility_matrix_def generate_obligation_database_def
          generate_master_database_def)
qed

text \<open>
  Claim C10. The matrix's \<^verbatim>\<open>total_licenses\<close> is the length of the input list. The
  compatibility table, the obligation database and the master database each hold one
  entry for each key that some record of the list is stored under, and a record is
  stored exactly when its \<^verbatim>\<open>license_id\<close> is present and not empty; records without an id
  are left out, so \<^verbatim>\<open>total_licenses\<close> can exceed the number of entries. This holds
  whenever a generator returns, and the generators return on every list of well-formed
  records.
\<close>

theorem per_license_entries:
  "(generate_compatibility_matrix now licenses = Inr m \<longrightarrow>
      matrix_total_licenses m = length licenses
      \<and> fst ` set (matrix_compatibility m) = stored_keys licenses
      \<and> distinct (map fst (matrix_compatibility m))
      \<and> (\<forall>l \<in> set licenses. (stored_key l \<noteq> None) = truthy (get l ''license_id'')))
   \<and> (generate_obligation_database now licenses = Inr ob \<longrightarrow>
      fst ` set (obligations_licenses ob) = stored_keys licenses
      \<and> distinct (map fst (obligations_licenses ob))
      \<and> (\<forall>l \<in> set licenses. (stored_key l \<noteq> None) = truthy (get l ''license_id'')))
   \<and> (generate_master_database now licenses m' ob' = Inr db \<longrightarrow>
      master_total_licenses db = length licenses
      \<and> fst ` set (master_licenses db) = stored_keys licenses
      \<and> distinct (map fst (master_licenses db))
      \<and> (\<forall>l \<in> set licenses. (stored_key l \<noteq> None) = truthy (get l ''license_id'')))
   \<and> ((\<forall>l \<in> set licenses. well_formed l) \<longrightarrow>
        (\<exists>m ob db. generate_compatibility_matrix now licenses = Inr m
          \<and> generate_obligation_database now licenses = Inr ob
          \<and> generate_master_database now licenses m ob = Inr db))"
  using matrix_entries [of now licenses m] obligation_entries [of now licenses ob]
    master_entries [of now licenses m' ob' db] generators_total [of licenses now]
  by blast

lemma sample_wf: "\<forall>l \<in> set sample_licenses. well_formed l"
  by (simp add: sample_licenses_def well_formed_def stored_key_def get_def get_or_def)

lemma sample_keys: "stored_keys sample_licenses = {JStr ''MIT'', JStr ''GPL-3.0-only''}"
  by (simp add: sample_licenses_def stored_keys_def stored_key_def get_def get_or_def map_filter_simps)

lemma length_of_keys: "distinct (map fst t) \<Longrightarrow> length t = card (fst ` set t)"
  using distinct_card [of "map fst t"] by simp

theorem per_license_entries_witness:
  "well_formed (sample_licenses ! 0) \<and> well_formed (sample_licenses ! 1) \<and> well_formed (sample_licenses ! 2)
   \<and> length sample_licenses = 3
   \<and> (\<exists>m ob db. generate_compatibility_matrix ''2026-01-01'' sample_licenses = Inr m
          \<and> generate_obligation_database ''2026-01-01'' sample_licenses = Inr ob
          \<and> generate_master_database ''2026-01-01'' sample_licenses m ob = Inr db
          \<and> matrix_total_licenses m = 3 \<and> length (matrix_compatibility m) = 2
          \<and> length (obligations_licenses ob) = 2
          \<and> master_total_licenses db = 3 \<and> length (master_licenses db) = 2)"
proof -
  have wf: "\<forall>l \<in> set sample_licenses. well_formed l" by (rule sample_wf)
  have n: "length sample_licenses = 3" by (simp add: sample_licenses_def)
  have k: "card (stored_keys sample_licenses) = 2" by (simp add: sample_keys)
  note t4 = per_license_entries [of "''2026-01-01''" sample_licenses,
      THEN conjunct2, THEN conjunct2, THEN conjunct2, THEN mp, OF wf]
  from t4 obtain m ob db where
    g: "generate_compatibility_matrix ''2026-01-01'' sample_licenses = Inr m"
       "generate_obligation_database ''2026-01-01'' sample_licenses = Inr ob"
       "generate_master_database ''2026-01-01'' sample_licenses m ob = Inr db"
    by blast
  note t1 = per_license_entries [of "''2026-01-01''" sample_licenses m, THEN conjunct1, THEN mp, OF g(1)]
  note t2 = per_license_entries [of "''2026-01-01''" sample_licenses _ ob,
      THEN conjunct2, THEN conjunct1, THEN mp, OF g(2)]
  note t3 = per_license_entries [of "''2026-01-01''" sample_licenses _ _ m ob db,
      THEN conjunct2, THEN conjunct2, THEN conjunct1, THEN mp, OF g(3)]
  from t1 have p1: "matrix_total_licenses m = length sample_licenses"
    "fst ` set (matrix_compatibility m) = stored_keys sample_licenses"
    "distinct (map fst (matrix_compatibility m))"
    by blast+
  from t2 have p2: "fst ` set (obligations_licenses ob) = stored_keys sample_licenses"
    "distinct (map fst (obligations_licenses ob))"
    by blast+
  from t3 have p3: "master_total_licenses db = length sample_licenses"
    "fst ` set (master_licenses db) = stored_keys sample_licenses"
    "distinct (map fst (master_licenses db))"
    by blast+
  note p = p1 p2 p3
  from p k n have "matrix_total_licenses m = 3" "length (matrix_compatibility m) = 2"
    "length (obligations_licenses ob) = 2" "master_total_licenses db = 3" "length (master_licenses db) = 2"
    by (simp_all add: length_of_keys)
  with g have e: "\<exists>m ob db. generate_compatibility_matrix ''2026-01-01'' sample_licenses = Inr m
          \<and> generate_obligation_database ''2026-01-01'' sample_licenses = Inr ob
          \<and> generate_master_database ''2026-01-01'' sample_licenses m ob = Inr db
          \<and> matrix_total_licenses m = 3 \<and> length (matrix_compatibility m) = 2
          \<and> length (obligations_licenses ob) = 2
          \<and> master_total_licenses db = 3 \<and> length (master_licenses db) = 2"
    by blast
  from wf have w: "well_formed (sample_licenses ! 0) \<and> well_formed (sample_licenses ! 1) \<and> well_formed (sample_licenses ! 2)"
    by (simp add: sample_licenses_def)
  from w n e show ?thesis by blast
qed

end
